theory Spec2Isabelle
  imports Main "HOL-Library.Sublist"
begin

section \<open>Decoded JSON values and the JavaScript operations the parser applies to them\<close>

text \<open>
  The parser of \<^verbatim>\<open>src/main/utils/jsonl.ts\<close> works on the result of \<^verbatim>\<open>JSON.parse\<close>, a value
  of TypeScript type \<^verbatim>\<open>unknown\<close>. It is modelled as the datatype below, with one more
  constructor for \<^verbatim>\<open>undefined\<close> (the value of a property that is not there). An object is
  the list of its properties, each key once. Numbers are modelled as integers: the numbers
  the code computes with are token counts. Strings are Isabelle strings: the theory covers
  text whose UTF-16 code units are below 256.
\<close>

datatype json = JUndefined | JNull | JBool bool | JNum int | JStr string
  | JArr "json list" | JObj "(string \<times> json) list"

text \<open>Truthiness (\<^verbatim>\<open>if (x)\<close>, \<^verbatim>\<open>!x\<close>) and nullishness (\<^verbatim>\<open>x ?? y\<close>).\<close>

fun truthy :: "json \<Rightarrow> bool" where
  "truthy JUndefined = False"
| "truthy JNull = False"
| "truthy (JBool b) = b"
| "truthy (JNum n) = (n \<noteq> 0)"
| "truthy (JStr s) = (s \<noteq> [])"
| "truthy (JArr xs) = True"
| "truthy (JObj kvs) = True"

fun nullish :: "json \<Rightarrow> bool" where
  "nullish JUndefined = True"
| "nullish JNull = True"
| "nullish v = False"

definition orElse :: "json \<Rightarrow> json \<Rightarrow> json" where
  "orElse a b = (if nullish a then b else a)"

text \<open>
  Property access \<^verbatim>\<open>x.k\<close> on a value that is not null or undefined, and \<^verbatim>\<open>x?.k\<close> on any
  value: a missing property, and any property of a primitive or an array that the code
  asks for, is \<^verbatim>\<open>undefined\<close>. Where the source writes \<^verbatim>\<open>x.k\<close> on a value that can be null
  or undefined, the model raises the TypeError itself before calling this function.
\<close>

fun getField :: "json \<Rightarrow> string \<Rightarrow> json" where
  "getField (JObj kvs) k = (case map_of kvs k of Some v \<Rightarrow> v | None \<Rightarrow> JUndefined)"
| "getField v k = JUndefined"

text \<open>\<^verbatim>\<open>'k' in x\<close> for an object \<^verbatim>\<open>x\<close>.\<close>

fun hasField :: "json \<Rightarrow> string \<Rightarrow> bool" where
  "hasField (JObj kvs) k = (map_of kvs k \<noteq> None)"
| "hasField v k = False"

text \<open>\<^verbatim>\<open>value && typeof value === 'object'\<close>: an array or an object.\<close>

fun isObjectLike :: "json \<Rightarrow> bool" where
  "isObjectLike (JArr xs) = True"
| "isObjectLike (JObj kvs) = True"
| "isObjectLike v = False"

fun isArray :: "json \<Rightarrow> bool" where
  "isArray (JArr xs) = True"
| "isArray v = False"

fun isString :: "json \<Rightarrow> bool" where
  "isString (JStr s) = True"
| "isString v = False"

text \<open>The elements a \<^verbatim>\<open>for ... of\<close> loop over an array visits.\<close>

fun elements :: "json \<Rightarrow> json list" where
  "elements (JArr xs) = xs"
| "elements v = []"

text \<open>\<^verbatim>\<open>asString\<close> (jsonl.ts, line 538): the string, or undefined.\<close>

fun asString :: "json \<Rightarrow> string option" where
  "asString (JStr s) = Some s"
| "asString v = None"

text \<open>\<^verbatim>\<open>a ?? b\<close> on results of \<^verbatim>\<open>asString\<close>: the empty string is not nullish.\<close>

fun orOpt :: "'a option \<Rightarrow> 'a option \<Rightarrow> 'a option" where
  "orOpt (Some a) b = Some a"
| "orOpt None b = b"

fun optJson :: "string option \<Rightarrow> json" where
  "optJson (Some s) = JStr s"
| "optJson None = JUndefined"

text \<open>
  A counter of type \<^verbatim>\<open>number | undefined\<close> read with \<^verbatim>\<open>x ?? 0\<close>. A value that is not a number
  lies outside the declared type \<^verbatim>\<open>TokenUsage\<close> and is read as 0 too.
\<close>

fun numberOr0 :: "json \<Rightarrow> int" where
  "numberOr0 (JNum n) = n"
| "numberOr0 v = 0"

subsection \<open>Strings\<close>

definition isWhiteSpace :: "char \<Rightarrow> bool" where
  "isWhiteSpace c = (c \<in> set [CHR 0x20, CHR 0x09, CHR 0x0A, CHR 0x0B, CHR 0x0C, CHR 0x0D, CHR 0xA0])"

definition trim :: "string \<Rightarrow> string" where
  "trim s = rev (dropWhile isWhiteSpace (rev (dropWhile isWhiteSpace s)))"

definition lowerChar :: "char \<Rightarrow> char" where
  "lowerChar c =
     (let n = (of_char c :: nat)
      in if (65 \<le> n \<and> n \<le> 90) \<or> (192 \<le> n \<and> n \<le> 222 \<and> n \<noteq> 215)
         then char_of (n + 32) else c)"

definition toLowerCase :: "string \<Rightarrow> string" where
  "toLowerCase s = map lowerChar s"

text \<open>\<^verbatim>\<open>s.includes('.')\<close>, \<^verbatim>\<open>s.startsWith(p)\<close> and \<^verbatim>\<open>s.split('.')[0]\<close>.\<close>

definition includesDot :: "string \<Rightarrow> bool" where
  "includesDot s = (CHR ''.'' \<in> set s)"

definition startsWith :: "string \<Rightarrow> string \<Rightarrow> bool" where
  "startsWith s p = prefix p s"

definition beforeFirstDot :: "string \<Rightarrow> string" where
  "beforeFirstDot s = takeWhile (\<lambda>c. c \<noteq> CHR ''.'') s"

text \<open>Decimal digits of a number, as \<^verbatim>\<open>String(n)\<close> and template strings write them.\<close>

fun digitsOf :: "nat \<Rightarrow> nat \<Rightarrow> string" where
  "digitsOf 0 n = []"
| "digitsOf (Suc fuel) n =
     (if n < 10 then [char_of (48 + n)]
      else digitsOf fuel (n div 10) @ [char_of (48 + n mod 10)])"

definition showNat :: "nat \<Rightarrow> string" where
  "showNat n = digitsOf (Suc n) n"

definition showInt :: "int \<Rightarrow> string" where
  "showInt i = (if i < 0 then CHR ''-'' # showNat (nat (- i)) else showNat (nat i))"

section \<open>The normalized message\<close>

text \<open>
  \<^verbatim>\<open>ParsedMessage\<close>. Fields the parser copies from the record unchanged keep the decoded
  JSON value (\<^verbatim>\<open>undefined\<close> when absent, \<^verbatim>\<open>null\<close> for the parent of a root). A \<^verbatim>\<open>Date\<close> is
  its \<^verbatim>\<open>getTime()\<close>, \<open>None\<close> for an invalid date (\<^verbatim>\<open>NaN\<close>).
\<close>

datatype message_type = User | Assistant | System | Summary | FileHistorySnapshot | QueueOperation

record parsed_message =
  uuid :: json
  parentUuid :: json
  type :: message_type
  timestamp :: "int option"
  role :: json
  content :: json
  usage :: json
  model :: json
  cwd :: json
  gitBranch :: json
  agentId :: json
  isSidechain :: json
  isMeta :: json
  userType :: json
  isCompactSummary :: bool
  toolCalls :: json
  toolResults :: json
  sourceToolUseID :: json
  sourceToolAssistantUUID :: json
  toolUseResult :: json

section \<open>Metrics (\<^verbatim>\<open>calculateMetrics\<close>, jsonl.ts lines 729-773)\<close>

record session_metrics =
  durationMs :: int
  totalTokens :: int
  inputTokens :: int
  outputTokens :: int
  cacheReadTokens :: int
  cacheCreationTokens :: int
  messageCount :: nat
  costUsd :: "int option"

text \<open>
  Modelled from the spec: \<^verbatim>\<open>EMPTY_METRICS\<close> is imported from \<^verbatim>\<open>../types\<close>, which is not among the
  sources. The spec (4.2) says the result for an empty input is "an all-zero result object
  ..., with duration 0, all counts 0, cost absent"; the unit test of the repository expects
  0 for duration, total, input, output and message count.
\<close>

definition EMPTY_METRICS :: session_metrics where
  "EMPTY_METRICS =
     \<lparr>durationMs = 0, totalTokens = 0, inputTokens = 0, outputTokens = 0,
      cacheReadTokens = 0, cacheCreationTokens = 0, messageCount = 0, costUsd = None\<rparr>"

text \<open>The loop of lines 748-751 over \<^verbatim>\<open>timestamps[1..]\<close>, started from \<^verbatim>\<open>timestamps[0]\<close>.\<close>

fun minMaxLoop :: "int \<times> int \<Rightarrow> int list \<Rightarrow> int \<times> int" where
  "minMaxLoop (minTime, maxTime) [] = (minTime, maxTime)"
| "minMaxLoop (minTime, maxTime) (t # ts) =
     minMaxLoop (if t < minTime then t else minTime, if t > maxTime then t else maxTime) ts"

definition minMaxTime :: "int list \<Rightarrow> int \<times> int" where
  "minMaxTime timestamps =
     (case timestamps of [] \<Rightarrow> (0, 0) | t # ts \<Rightarrow> minMaxLoop (t, t) ts)"

text \<open>
  The loop of lines 754-761. The accumulator is the four counters, in the order input,
  output, cache read, cache creation.
\<close>

fun addUsage :: "int \<times> int \<times> int \<times> int \<Rightarrow> parsed_message \<Rightarrow> int \<times> int \<times> int \<times> int" where
  "addUsage (i, out, cr, cc) msg =
     (if truthy (usage msg)
      then (i + numberOr0 (getField (usage msg) ''input_tokens''),
            out + numberOr0 (getField (usage msg) ''output_tokens''),
            cr + numberOr0 (getField (usage msg) ''cache_read_input_tokens''),
            cc + numberOr0 (getField (usage msg) ''cache_creation_input_tokens''))
      else (i, out, cr, cc))"

definition sumUsage :: "parsed_message list \<Rightarrow> int \<times> int \<times> int \<times> int" where
  "sumUsage messages = foldl addUsage (0, 0, 0, 0) messages"

definition calculateMetrics :: "parsed_message list \<Rightarrow> session_metrics" where
  "calculateMetrics messages =
     (if length messages = 0 then EMPTY_METRICS
      else
        (let costUsd0 = (0 :: int);
             timestamps = List.map_filter timestamp messages;
             (minTime, maxTime) = minMaxTime timestamps;
             (inputTokens0, outputTokens0, cacheReadTokens0, cacheCreationTokens0) = sumUsage messages
         in \<lparr>durationMs = maxTime - minTime,
             totalTokens = inputTokens0 + cacheCreationTokens0 + cacheReadTokens0 + outputTokens0,
             inputTokens = inputTokens0,
             outputTokens = outputTokens0,
             cacheReadTokens = cacheReadTokens0,
             cacheCreationTokens = cacheCreationTokens0,
             messageCount = length messages,
             costUsd = (if costUsd0 > 0 then Some costUsd0 else None)\<rparr>))"

section \<open>The environment: library functions and the clock\<close>

text \<open>
  What the parser calls outside the repository's sources is a parameter of the model:
  \<^item> \<open>jsonParse\<close>: \<^verbatim>\<open>JSON.parse\<close>, \<open>None\<close> when it throws a SyntaxError;
  \<^item> \<open>sha256hex\<close>: \<^verbatim>\<open>crypto.createHash('sha256').update(seed).digest('hex')\<close>;
  \<^item> \<open>newDate\<close>: \<^verbatim>\<open>new Date(v).getTime()\<close>, \<open>None\<close> for an invalid date;
  \<^item> \<open>toISOString\<close>: \<^verbatim>\<open>Date.prototype.toISOString\<close> of a valid date;
  \<^item> \<open>extractToolCalls\<close>, \<open>extractToolResults\<close>: imported from \<^verbatim>\<open>./toolExtraction\<close>, which is not
    among the sources; their results are only stored.
  The clock (\<^verbatim>\<open>new Date()\<close>, \<^verbatim>\<open>Date.now()\<close>) is the argument \<open>now\<close> of the functions that
  parse one record, in milliseconds; the functions that walk an array or a file take a
  function \<open>clock\<close> from the position of the item to the reading while it is parsed.
\<close>

record env =
  jsonParse :: "string \<Rightarrow> json option"
  sha256hex :: "string \<Rightarrow> string"
  newDate :: "json \<Rightarrow> int option"
  toISOString :: "int \<Rightarrow> string"
  extractToolCalls :: "json \<Rightarrow> json"
  extractToolResults :: "json \<Rightarrow> json"

datatype error = SyntaxError | TypeError

section \<open>Helpers of the parser (jsonl.ts lines 534-601)\<close>

definition stableUuid :: "env \<Rightarrow> string \<Rightarrow> string" where
  "stableUuid e seed = take 24 (sha256hex e seed)"

definition normalizeRole :: "string option \<Rightarrow> message_type option" where
  "normalizeRole raw =
     (case raw of
        None \<Rightarrow> None
      | Some r \<Rightarrow>
          if r = [] then None
          else (let normalized = toLowerCase r
                in if normalized = ''user'' \<or> normalized = ''human'' then Some User
                   else if normalized = ''assistant'' \<or> normalized = ''ai'' \<or> normalized = ''copilot''
                   then Some Assistant
                   else if normalized = ''system'' then Some System
                   else None))"

text \<open>\<^verbatim>\<open>pickMessageContent(value).value\<close>: \<open>None\<close> is \<^verbatim>\<open>null\<close>.\<close>

fun pickMessageContent :: "json \<Rightarrow> json option" where
  "pickMessageContent (JStr s) = Some (JStr s)"
| "pickMessageContent (JArr xs) = Some (JArr xs)"
| "pickMessageContent (JObj kvs) =
     (case orOpt (asString (getField (JObj kvs) ''text'')) (asString (getField (JObj kvs) ''value'')) of
        Some t \<Rightarrow> (if t \<noteq> [] then Some (JStr t) else None)
      | None \<Rightarrow> None)"
| "pickMessageContent v = None"

definition toDateOrNow :: "env \<Rightarrow> int \<Rightarrow> string option \<Rightarrow> int" where
  "toDateOrNow e now v =
     (case v of
        None \<Rightarrow> now
      | Some s \<Rightarrow>
          if s = [] then now
          else (case newDate e (JStr s) of None \<Rightarrow> now | Some parsed \<Rightarrow> parsed))"

fun typeName :: "message_type \<Rightarrow> string" where
  "typeName User = ''user''"
| "typeName Assistant = ''assistant''"
| "typeName System = ''system''"
| "typeName Summary = ''summary''"
| "typeName FileHistorySnapshot = ''file-history-snapshot''"
| "typeName QueueOperation = ''queue-operation''"

text \<open>
  \<^verbatim>\<open>buildCopilotMessage\<close> (lines 277-310). The fields of \<^verbatim>\<open>params\<close> are the arguments, in the
  order type, content, timestamp, uuidSeed, cwd, model.
\<close>

definition buildCopilotMessage ::
  "env \<Rightarrow> message_type \<Rightarrow> json \<Rightarrow> int \<Rightarrow> string \<Rightarrow> string option \<Rightarrow> string option \<Rightarrow> parsed_message" where
  "buildCopilotMessage e ptype pcontent ptimestamp uuidSeed pcwd pmodel =
     \<lparr>uuid = JStr (stableUuid e uuidSeed),
      parentUuid = JNull,
      type = ptype,
      timestamp = Some ptimestamp,
      role = JStr (typeName ptype),
      content = pcontent,
      usage = JUndefined,
      model = (if ptype = Assistant then optJson pmodel else JUndefined),
      cwd = optJson pcwd,
      gitBranch = JUndefined,
      agentId = JUndefined,
      isSidechain = JBool False,
      isMeta = JBool False,
      userType = (if ptype = User then JStr ''external'' else JUndefined),
      isCompactSummary = False,
      toolCalls = extractToolCalls e pcontent,
      toolResults = extractToolResults e pcontent,
      sourceToolUseID = JUndefined,
      sourceToolAssistantUUID = JUndefined,
      toolUseResult = JUndefined\<rparr>"

definition textBlock :: "string \<Rightarrow> json" where
  "textBlock t = JObj [(''type'', JStr ''text''), (''text'', JStr t)]"

section \<open>The flat role/content format (\<^verbatim>\<open>parseCopilotMessageEntry\<close>, lines 231-275)\<close>

definition parseCopilotMessageEntry :: "env \<Rightarrow> int \<Rightarrow> json \<Rightarrow> parsed_message option" where
  "parseCopilotMessageEntry e now entry =
     (if \<not> isObjectLike entry then None
      else
        (let message = getField entry ''message'';
             roleRaw = orOpt (asString (getField entry ''role''))
                        (orOpt (asString (getField entry ''author''))
                          (orOpt (asString (getField entry ''type''))
                            (asString (getField message ''role''))))
         in case normalizeRole roleRaw of
              None \<Rightarrow> None
            | Some role0 \<Rightarrow>
               (case orOpt (pickMessageContent (getField entry ''content''))
                      (orOpt (pickMessageContent (getField message ''content''))
                        (orOpt (pickMessageContent (getField entry ''text''))
                          (pickMessageContent (getField entry ''value'')))) of
                  None \<Rightarrow> None
                | Some content0 \<Rightarrow>
                   (let timestampRaw = orOpt (asString (getField entry ''timestamp''))
                                        (orOpt (asString (getField entry ''createdAt''))
                                          (orOpt (asString (getField entry ''time''))
                                            (asString (getField message ''timestamp''))))
                    in Some (buildCopilotMessage e role0 content0 (toDateOrNow e now timestampRaw)
                         (case orOpt (asString (getField entry ''uuid'')) (asString (getField entry ''id'')) of
                            Some s \<Rightarrow> s
                          | None \<Rightarrow>
                              ''copilot-'' @ typeName role0 @ ''-''
                                @ (case timestampRaw of Some t \<Rightarrow> t | None \<Rightarrow> showInt now))
                         (orOpt (asString (getField entry ''cwd'')) (asString (getField entry ''workspacePath'')))
                         (orOpt (asString (getField entry ''model'')) (asString (getField message ''model''))))))))"

section \<open>The dotted event-name format (\<^verbatim>\<open>parseCopilotEventEntry\<close>, lines 326-496)\<close>

definition parseCopilotEventEntry :: "env \<Rightarrow> int \<Rightarrow> json \<Rightarrow> parsed_message option" where
  "parseCopilotEventEntry e now entry =
     (if \<not> isObjectLike entry then None
      else case asString (getField entry ''type'') of
        None \<Rightarrow> None
      | Some eventType \<Rightarrow>
         if \<not> includesDot eventType then None
         else
          (let data = getField entry ''data'' in
           if \<not> isObjectLike data then None
           else
            (let timestampRaw = orOpt (asString (getField entry ''timestamp'')) (asString (getField data ''timestamp''));
                 timestamp0 = toDateOrNow e now timestampRaw;
                 eventId = (case orOpt (asString (getField entry ''id'')) (asString (getField data ''id'')) of
                              Some s \<Rightarrow> s | None \<Rightarrow> [])
             in
             if eventType = ''session.start'' then
               (let sessionId = (case asString (getField data ''sessionId'') of Some s \<Rightarrow> s | None \<Rightarrow> [])
                in Some (buildCopilotMessage e System (JStr (''Session started ('' @ sessionId @ '')''))
                     timestamp0 (''copilot-event-'' @ eventId @ ''-session-start'')
                     (orOpt (asString (getField data ''cwd'')) (asString (getField data ''workingDirectory'')))
                     None))
             else if eventType = ''user.message'' then
               (let content0 = (case asString (getField data ''content'') of Some s \<Rightarrow> s | None \<Rightarrow> [])
                in if trim content0 = [] then None
                   else Some (buildCopilotMessage e User (JStr content0) timestamp0
                     (''copilot-event-'' @ eventId @ ''-user'')
                     (asString (getField data ''cwd'')) None))
             else if eventType = ''assistant.message'' then
               (let content0 = (case asString (getField data ''content'') of Some s \<Rightarrow> s | None \<Rightarrow> [])
                in if trim content0 = [] then None
                   else Some (buildCopilotMessage e Assistant (JArr [textBlock content0]) timestamp0
                     (''copilot-event-'' @ eventId @ ''-assistant-''
                        @ (case asString (getField data ''messageId'') of Some s \<Rightarrow> s | None \<Rightarrow> []))
                     None (asString (getField data ''model''))))
             else if eventType = ''assistant.message_delta'' then
               (let deltaContent = (case asString (getField data ''deltaContent'') of Some s \<Rightarrow> s | None \<Rightarrow> [])
                in if trim deltaContent = [] then None
                   else Some (buildCopilotMessage e Assistant (JArr [textBlock deltaContent]) timestamp0
                     (''copilot-event-'' @ eventId @ ''-delta-''
                        @ (case asString (getField data ''messageId'') of Some s \<Rightarrow> s | None \<Rightarrow> []))
                     None (asString (getField data ''model''))))
             else if eventType = ''tool.execution_start'' then
               (let toolName = (case orOpt (asString (getField data ''toolName'')) (asString (getField data ''name'')) of
                                  Some s \<Rightarrow> s | None \<Rightarrow> ''unknown_tool'');
                    toolInput = orElse (getField data ''input'') (orElse (getField data ''parameters'') (JObj []));
                    toolCallId = (case asString (getField data ''toolCallId'') of Some s \<Rightarrow> s | None \<Rightarrow> eventId);
                    contentBlocks = JArr [JObj [(''type'', JStr ''tool_use''), (''id'', JStr toolCallId),
                                                (''name'', JStr toolName), (''input'', toolInput)]]
                in Some (buildCopilotMessage e Assistant contentBlocks timestamp0
                     (''copilot-event-'' @ eventId @ ''-tool-start-'' @ toolCallId) None None))
             else if eventType = ''tool.execution_complete'' then
               (let toolCallId = (case asString (getField data ''toolCallId'') of Some s \<Rightarrow> s | None \<Rightarrow> eventId);
                    resultContent = (case orOpt (asString (getField data ''output'')) (asString (getField data ''content'')) of
                                       Some s \<Rightarrow> s | None \<Rightarrow> []);
                    isError = (getField data ''isError'' = JBool True \<or> getField data ''status'' = JStr ''error'');
                    contentBlocks = JArr [JObj [(''type'', JStr ''tool_result''), (''tool_use_id'', JStr toolCallId),
                                                (''content'', JStr resultContent), (''is_error'', JBool isError)]]
                in Some (buildCopilotMessage e User contentBlocks timestamp0
                     (''copilot-event-'' @ eventId @ ''-tool-complete-'' @ toolCallId) None None))
             else if eventType = ''session.error'' then
               (let errorMsg = (case orOpt (asString (getField data ''message'')) (asString (getField data ''error'')) of
                                  Some s \<Rightarrow> s | None \<Rightarrow> ''Unknown error'');
                    errorType = (case asString (getField data ''errorType'') of Some s \<Rightarrow> s | None \<Rightarrow> ''error'')
                in Some (buildCopilotMessage e System (JStr (''Error ('' @ errorType @ ''): '' @ errorMsg))
                     timestamp0 (''copilot-event-'' @ eventId @ ''-error'') None None))
             else if eventType = ''session.shutdown'' then
               Some (buildCopilotMessage e System (JStr ''Session ended'') timestamp0
                     (''copilot-event-'' @ eventId @ ''-shutdown'') None None)
             else
               (case orOpt (asString (getField data ''content''))
                      (orOpt (asString (getField data ''text''))
                        (orOpt (asString (getField data ''message'')) (asString (getField data ''prompt'')))) of
                  None \<Rightarrow> None
                | Some genericContent \<Rightarrow>
                   if genericContent \<noteq> [] \<and> length (trim genericContent) > 0 then
                     (let prefix0 = toLowerCase (beforeFirstDot eventType);
                          role0 = (if prefix0 = ''user'' then User
                                   else if prefix0 = ''assistant'' \<or> prefix0 = ''agent'' then Assistant
                                   else System)
                      in if role0 = Assistant then
                           Some (buildCopilotMessage e Assistant (JArr [textBlock (trim genericContent)]) timestamp0
                             (''copilot-event-'' @ eventId @ ''-'' @ eventType)
                             None (asString (getField data ''model'')))
                         else
                           Some (buildCopilotMessage e role0 (JStr (trim genericContent)) timestamp0
                             (''copilot-event-'' @ eventId @ ''-'' @ eventType)
                             (orOpt (asString (getField data ''cwd'')) (asString (getField data ''workingDirectory'')))
                             None))
                   else None))))"

section \<open>The structured format (\<^verbatim>\<open>parseChatHistoryEntry\<close>, lines 610-720)\<close>

fun parseMessageType :: "json \<Rightarrow> message_type option" where
  "parseMessageType (JStr s) =
     (if s = ''user'' then Some User
      else if s = ''assistant'' then Some Assistant
      else if s = ''system'' then Some System
      else if s = ''summary'' then Some Summary
      else if s = ''file-history-snapshot'' then Some FileHistorySnapshot
      else if s = ''queue-operation'' then Some QueueOperation
      else None)"
| "parseMessageType v = None"

text \<open>
  Modelled from the spec: \<^verbatim>\<open>isConversationalEntry\<close> is imported from \<^verbatim>\<open>../types\<close>, which is not
  among the sources. The spec (4.1) names the conversational kinds by what the parser reads
  from them ("Conversational sub-kinds extract role-specific fields"), which the source does
  for the types user, assistant and system.
\<close>

definition isConversationalEntry :: "json \<Rightarrow> bool" where
  "isConversationalEntry entry =
     (getField entry ''type'' = JStr ''user'' \<or> getField entry ''type'' = JStr ''assistant''
      \<or> getField entry ''type'' = JStr ''system'')"

text \<open>
  \<^verbatim>\<open>entry.uuid\<close> on \<^verbatim>\<open>null\<close>, and \<^verbatim>\<open>entry.message.content\<close> on a user or assistant record with no
  \<^verbatim>\<open>message\<close>, throw a TypeError. \<open>Inr None\<close> is the \<^verbatim>\<open>null\<close> the function returns.
\<close>

definition parseChatHistoryEntry :: "env \<Rightarrow> int \<Rightarrow> json \<Rightarrow> error + parsed_message option" where
  "parseChatHistoryEntry e now entry =
     (if nullish entry then Inl TypeError
      else if \<not> truthy (getField entry ''uuid'') then Inr None
      else case parseMessageType (getField entry ''type'') of
        None \<Rightarrow> Inr None
      | Some type0 \<Rightarrow>
         (let conv = isConversationalEntry entry;
              isUser = (conv \<and> getField entry ''type'' = JStr ''user'');
              isAssistant = (conv \<and> getField entry ''type'' = JStr ''assistant'');
              isSystem = (conv \<and> getField entry ''type'' = JStr ''system'');
              message = getField entry ''message''
          in if (isUser \<or> isAssistant) \<and> nullish message then Inl TypeError
             else
              (let content0 = (if isUser then orElse (getField message ''content'') (JStr [])
                               else if isAssistant then getField message ''content''
                               else JStr [])
               in Inr (Some
                 \<lparr>uuid = getField entry ''uuid'',
                  parentUuid = (if conv then orElse (getField entry ''parentUuid'') JNull else JNull),
                  type = type0,
                  timestamp = (if truthy (getField entry ''timestamp'')
                               then newDate e (getField entry ''timestamp'') else Some now),
                  role = (if isUser \<or> isAssistant then getField message ''role'' else JUndefined),
                  content = content0,
                  usage = (if isAssistant then getField message ''usage'' else JUndefined),
                  model = (if isAssistant then getField message ''model'' else JUndefined),
                  cwd = (if conv then getField entry ''cwd'' else JUndefined),
                  gitBranch = (if conv then getField entry ''gitBranch'' else JUndefined),
                  agentId = (if isUser \<or> isAssistant then getField entry ''agentId'' else JUndefined),
                  isSidechain = (if conv then orElse (getField entry ''isSidechain'') (JBool False)
                                 else JBool False),
                  isMeta = (if isUser \<or> isSystem then orElse (getField entry ''isMeta'') (JBool False)
                            else JBool False),
                  userType = (if conv then getField entry ''userType'' else JUndefined),
                  isCompactSummary = (isUser \<and> hasField entry ''isCompactSummary''
                                      \<and> getField entry ''isCompactSummary'' = JBool True),
                  toolCalls = extractToolCalls e content0,
                  toolResults = extractToolResults e content0,
                  sourceToolUseID = (if isUser then getField entry ''sourceToolUseID'' else JUndefined),
                  sourceToolAssistantUUID =
                    (if isUser then getField entry ''sourceToolAssistantUUID'' else JUndefined),
                  toolUseResult = (if isUser then getField entry ''toolUseResult'' else JUndefined)\<rparr>))))"

section \<open>One line (\<^verbatim>\<open>parseJsonlLine\<close>, lines 97-115)\<close>

text \<open>
  Lines 103-114, on the decoded record: the structured format, then the dotted event
  format, then the flat role/content format.
\<close>

definition parseDecodedEntry :: "env \<Rightarrow> int \<Rightarrow> json \<Rightarrow> error + parsed_message option" where
  "parseDecodedEntry e now entry =
     (case parseChatHistoryEntry e now entry of
        Inl err \<Rightarrow> Inl err
      | Inr (Some claudeEntry) \<Rightarrow> Inr (Some claudeEntry)
      | Inr None \<Rightarrow>
         (case parseCopilotEventEntry e now entry of
            Some copilotEvent \<Rightarrow> Inr (Some copilotEvent)
          | None \<Rightarrow> Inr (parseCopilotMessageEntry e now entry)))"

definition parseJsonlLine :: "env \<Rightarrow> int \<Rightarrow> string \<Rightarrow> error + parsed_message option" where
  "parseJsonlLine e now line =
     (if trim line = [] then Inr None
      else case jsonParse e line of
             None \<Rightarrow> Inl SyntaxError
           | Some entry \<Rightarrow> parseDecodedEntry e now entry)"

section \<open>Parent chains and whole-document transcripts (lines 117-229, 505-532)\<close>

text \<open>\<^verbatim>\<open>assignParentUuids\<close>: the \<^verbatim>\<open>map\<close> with the variable \<^verbatim>\<open>previousUuid\<close>, which starts as null.\<close>

fun assignFrom :: "json \<Rightarrow> parsed_message list \<Rightarrow> parsed_message list" where
  "assignFrom previousUuid [] = []"
| "assignFrom previousUuid (message # rest) =
     message\<lparr>parentUuid := previousUuid\<rparr> # assignFrom (uuid message) rest"

definition assignParentUuids :: "parsed_message list \<Rightarrow> parsed_message list" where
  "assignParentUuids messages = assignFrom JNull messages"

text \<open>\<^verbatim>\<open>items.map(parseCopilotMessageEntry).filter(msg => msg !== null)\<close>, from position \<open>i\<close>.\<close>

fun messageArrayFrom :: "env \<Rightarrow> (nat \<Rightarrow> int) \<Rightarrow> nat \<Rightarrow> json list \<Rightarrow> parsed_message list" where
  "messageArrayFrom e clock i [] = []"
| "messageArrayFrom e clock i (item # items) =
     (case parseCopilotMessageEntry e (clock i) item of
        None \<Rightarrow> messageArrayFrom e clock (Suc i) items
      | Some msg \<Rightarrow> msg # messageArrayFrom e clock (Suc i) items)"

definition parseCopilotMessageArray :: "env \<Rightarrow> (nat \<Rightarrow> int) \<Rightarrow> json list \<Rightarrow> parsed_message list" where
  "parseCopilotMessageArray e clock items = assignParentUuids (messageArrayFrom e clock 0 items)"

text \<open>The messages one iteration of the loop of \<^verbatim>\<open>parseCopilotRequestArray\<close> pushes (lines 170-224).\<close>

definition requestMessages :: "env \<Rightarrow> int \<Rightarrow> nat \<Rightarrow> json \<Rightarrow> parsed_message list" where
  "requestMessages e now index item =
     (if \<not> isObjectLike item then []
      else
       (let request0 = getField item ''request'';
            responseMessage = getField item ''responseMessage'';
            userText = orOpt (asString (getField item ''prompt''))
                        (orOpt (asString (getField item ''input''))
                          (orOpt (asString (getField item ''query''))
                            (orOpt (asString (getField item ''message''))
                              (asString (getField request0 ''message'')))));
            assistantText = orOpt (asString (getField item ''response''))
                             (orOpt (asString (getField item ''answer''))
                               (orOpt (asString (getField item ''output''))
                                 (asString (getField responseMessage ''content''))));
            timestampRaw = orOpt (asString (getField item ''timestamp''))
                            (orOpt (asString (getField item ''createdAt''))
                              (orOpt (asString (getField item ''time''))
                                (asString (getField request0 ''timestamp''))));
            timestamp0 = toDateOrNow e now timestampRaw;
            cwd0 = orOpt (asString (getField item ''cwd'')) (asString (getField item ''workspacePath''))
        in (case userText of
              None \<Rightarrow> []
            | Some u \<Rightarrow>
                if u \<noteq> [] \<and> length (trim u) > 0
                then [buildCopilotMessage e User (JStr u) timestamp0
                        (''copilot-user-'' @ showNat index @ ''-'' @ toISOString e timestamp0) cwd0 None]
                else [])
           @ (case assistantText of
                None \<Rightarrow> []
              | Some a \<Rightarrow>
                  if a \<noteq> [] \<and> length (trim a) > 0
                  then (let assistantTs = toDateOrNow e now
                              (Some (case asString (getField responseMessage ''timestamp'') of
                                       Some s \<Rightarrow> s | None \<Rightarrow> toISOString e timestamp0))
                        in [buildCopilotMessage e Assistant (JArr [textBlock a]) assistantTs
                              (''copilot-assistant-'' @ showNat index @ ''-'' @ toISOString e assistantTs) cwd0
                              (orOpt (asString (getField item ''model'')) (asString (getField responseMessage ''model'')))])
                  else [])))"

fun requestArrayFrom :: "env \<Rightarrow> (nat \<Rightarrow> int) \<Rightarrow> nat \<Rightarrow> json list \<Rightarrow> parsed_message list" where
  "requestArrayFrom e clock index [] = []"
| "requestArrayFrom e clock index (item # items) =
     requestMessages e (clock index) index item @ requestArrayFrom e clock (Suc index) items"

text \<open>
  \<^verbatim>\<open>timestamp.getTime()\<close>, the key of the sort of line 227. Every message sorted there was built
  with a valid date; \<^verbatim>\<open>Array.prototype.sort\<close> is stable, as \<open>sort_key\<close> is.
\<close>

definition getTime :: "parsed_message \<Rightarrow> int" where
  "getTime m = (case timestamp m of Some t \<Rightarrow> t | None \<Rightarrow> 0)"

definition parseCopilotRequestArray :: "env \<Rightarrow> (nat \<Rightarrow> int) \<Rightarrow> json list \<Rightarrow> parsed_message list" where
  "parseCopilotRequestArray e clock items =
     assignParentUuids (sort_key getTime (requestArrayFrom e clock 0 items))"

definition parseCopilotTranscript :: "env \<Rightarrow> (nat \<Rightarrow> int) \<Rightarrow> json \<Rightarrow> parsed_message list" where
  "parseCopilotTranscript e clock data =
     (if \<not> isObjectLike data then []
      else if isArray data then parseCopilotMessageArray e clock (elements data)
      else if isArray (getField data ''messages'')
        then parseCopilotMessageArray e clock (elements (getField data ''messages''))
      else if isArray (getField data ''requests'')
        then parseCopilotRequestArray e clock (elements (getField data ''requests''))
      else if isArray (getField data ''turns'')
        then parseCopilotRequestArray e clock (elements (getField data ''turns''))
      else (case parseCopilotMessageEntry e (clock 0) data of
              Some single \<Rightarrow> [single]
            | None \<Rightarrow> []))"

definition isSessionStarted :: "parsed_message \<Rightarrow> bool" where
  "isSessionStarted msg =
     (type msg = System
      \<and> (case content msg of JStr s \<Rightarrow> startsWith s ''Session started'' | _ \<Rightarrow> False))"

definition consolidateCopilotDeltas :: "parsed_message list \<Rightarrow> parsed_message list" where
  "consolidateCopilotDeltas messages =
     (if list_ex isSessionStarted messages then assignParentUuids messages else messages)"

section \<open>Files (\<^verbatim>\<open>parseJsonlFile\<close>, lines 52-86)\<close>

text \<open>
  The \<^verbatim>\<open>FileSystemProvider\<close>, as far as the parser uses it: \<open>fsExists\<close> is \<^verbatim>\<open>exists\<close>, \<open>fsLines\<close>
  the lines \<^verbatim>\<open>readline\<close> reads from \<^verbatim>\<open>createReadStream\<close>, \<open>fsReadFile\<close> is \<^verbatim>\<open>readFile\<close>, \<open>None\<close>
  when the read fails.
\<close>

record fs_provider =
  fsExists :: "string \<Rightarrow> bool"
  fsLines :: "string \<Rightarrow> string list"
  fsReadFile :: "string \<Rightarrow> string option"

definition endsWith :: "string \<Rightarrow> string \<Rightarrow> bool" where
  "endsWith s p = suffix p s"

text \<open>The \<^verbatim>\<open>try\<close>/\<^verbatim>\<open>catch\<close> of lines 121-128: a failed read or decode gives no messages.\<close>

definition parseCopilotJsonFile :: "env \<Rightarrow> (nat \<Rightarrow> int) \<Rightarrow> fs_provider \<Rightarrow> string \<Rightarrow> parsed_message list" where
  "parseCopilotJsonFile e clock fs filePath =
     (case fsReadFile fs filePath of
        None \<Rightarrow> []
      | Some raw \<Rightarrow>
         (case jsonParse e raw of
            None \<Rightarrow> []
          | Some data \<Rightarrow> parseCopilotTranscript e clock data))"

text \<open>
  The loop of lines 68-79 from line number \<open>i\<close>: the messages pushed, and the errors the
  \<^verbatim>\<open>catch\<close> hands to \<^verbatim>\<open>logger.error\<close>.
\<close>

fun parseLinesFrom ::
  "env \<Rightarrow> (nat \<Rightarrow> int) \<Rightarrow> nat \<Rightarrow> string list \<Rightarrow> parsed_message list \<times> error list" where
  "parseLinesFrom e clock i [] = ([], [])"
| "parseLinesFrom e clock i (line # rest) =
     (let (messages, logged) = parseLinesFrom e clock (Suc i) rest
      in if trim line = [] then (messages, logged)
         else (case parseJsonlLine e (clock i) line of
                 Inl err \<Rightarrow> (messages, err # logged)
               | Inr None \<Rightarrow> (messages, logged)
               | Inr (Some parsed) \<Rightarrow> (parsed # messages, logged)))"

definition parseJsonlFile :: "env \<Rightarrow> (nat \<Rightarrow> int) \<Rightarrow> fs_provider \<Rightarrow> string \<Rightarrow> parsed_message list" where
  "parseJsonlFile e clock fs filePath =
     (if \<not> fsExists fs filePath then []
      else
       (let messages = fst (parseLinesFrom e clock 0 (fsLines fs filePath))
        in if length messages = 0 \<and> endsWith (toLowerCase filePath) ''.json''
           then parseCopilotJsonFile e clock fs filePath
           else consolidateCopilotDeltas messages))"

section \<open>The streaming analyzer (\<^verbatim>\<open>analyzeSessionFileMetadata\<close>, lines 823-1270)\<close>

text \<open>
  The model keeps the variables of the liveness state machine and of the context
  tracker. The title preview, the message count and the branch live in variables of their
  own (\<^verbatim>\<open>firstUserMessage\<close>, \<^verbatim>\<open>messageCount\<close>, \<^verbatim>\<open>gitBranch\<close>, ...) that the liveness and context
  code never reads; they call \<^verbatim>\<open>sanitizeDisplayContent\<close>, \<^verbatim>\<open>isCommandOutputContent\<close>,
  \<^verbatim>\<open>isParsedUserChunkMessage\<close> and \<^verbatim>\<open>isTextContent\<close>, which are not among the sources, and are
  left out (that code is taken not to throw).

  \<open>history\<close> and \<open>observedTotals\<close> are history variables, not variables of the source: the
  transitions only append to them and never read them. \<open>history\<close> records each event the
  pass classifies, in order; \<open>observedTotals\<close> each main-thread input-token total that line
  1186 lets through.
\<close>

datatype activity = Ongoing | Ending

record compaction_phase =
  pre :: int
  post :: int

record analyzer_state =
  activityIndex :: int
  lastEndingIndex :: int
  hasAnyOngoingActivity :: bool
  hasActivityAfterLastEnding :: bool
  shutdownToolIds :: "json list"
  lastMainAssistantInputTokens :: int
  compactionPhases :: "compaction_phase list"
  awaitingPostCompaction :: bool
  history :: "activity list"
  observedTotals :: "int list"

definition initialState :: analyzer_state where
  "initialState =
     \<lparr>activityIndex = 0, lastEndingIndex = - 1, hasAnyOngoingActivity = False,
      hasActivityAfterLastEnding = False, shutdownToolIds = [],
      lastMainAssistantInputTokens = 0, compactionPhases = [],
      awaitingPostCompaction = False, history = [], observedTotals = []\<rparr>"

text \<open>
  The two updates the source repeats at every classified event: an ongoing-activity event
  (for instance lines 1120-1124) and an ending event (for instance lines 1127-1128).
\<close>

definition noteOngoing :: "analyzer_state \<Rightarrow> analyzer_state" where
  "noteOngoing st =
     st\<lparr>hasAnyOngoingActivity := True,
        hasActivityAfterLastEnding :=
          (if lastEndingIndex st \<ge> 0 then True else hasActivityAfterLastEnding st),
        activityIndex := activityIndex st + 1,
        history := history st @ [Ongoing]\<rparr>"

definition noteEnding :: "analyzer_state \<Rightarrow> analyzer_state" where
  "noteEnding st =
     st\<lparr>lastEndingIndex := activityIndex st,
        activityIndex := activityIndex st + 1,
        hasActivityAfterLastEnding := False,
        history := history st @ [Ending]\<rparr>"

subsection \<open>Dotted event records (lines 880-975)\<close>

definition isLineTerminator :: "char \<Rightarrow> bool" where
  "isLineTerminator c = (c = CHR 0x0A \<or> c = CHR 0x0D)"

text \<open>\<^verbatim>\<open>/^session\.(w1|w2|...)$/.test(s)\<close> and \<^verbatim>\<open>/^tool\..*(w1|w2|...)$/.test(s)\<close>.\<close>

definition matchesSession :: "string list \<Rightarrow> string \<Rightarrow> bool" where
  "matchesSession ws s = list_ex (\<lambda>w. s = ''session.'' @ w) ws"

definition matchesTool :: "string list \<Rightarrow> string \<Rightarrow> bool" where
  "matchesTool ws s =
     (startsWith s ''tool.''
      \<and> list_ex (\<lambda>w. suffix w (drop 5 s)
                      \<and> \<not> list_ex isLineTerminator (take (length (drop 5 s) - length w) (drop 5 s))) ws)"

definition copilotEventStep :: "analyzer_state \<Rightarrow> json \<Rightarrow> string \<Rightarrow> analyzer_state" where
  "copilotEventStep st entry eventType =
     (let data = getField entry ''data'';
          copilotContent =
            (if truthy data
             then map_option trim
                    (orOpt (asString (getField data ''content''))
                      (orOpt (asString (getField data ''text''))
                        (orOpt (asString (getField data ''message''))
                          (asString (getField data ''prompt'')))))
             else None);
          lowerEventType = toLowerCase eventType;
          isAssistantDelta = (lowerEventType = ''assistant.message_delta'');
          isAssistantEnding =
            (startsWith lowerEventType ''assistant.'' \<and> \<not> isAssistantDelta
             \<and> (case copilotContent of Some c \<Rightarrow> c \<noteq> [] \<and> length c > 0 | None \<Rightarrow> False));
          isSessionEnding =
            (lowerEventType = ''session.shutdown'' \<or> lowerEventType = ''session.error''
             \<or> matchesSession [''end'', ''ended'', ''stop'', ''stopped'', ''complete'', ''completed'',
                                ''close'', ''closed'', ''shutdown'', ''error''] lowerEventType);
          isToolStartActivity =
            (lowerEventType = ''tool.execution_start''
             \<or> matchesTool [''start'', ''started'', ''begin'', ''began'', ''invoke'', ''invoked'',
                             ''call'', ''called''] lowerEventType);
          isToolEnding =
            (lowerEventType = ''tool.execution_complete''
             \<or> matchesTool [''complete'', ''completed'', ''finish'', ''finished'', ''result'', ''error'',
                             ''end'', ''ended''] lowerEventType)
      in if isAssistantEnding \<or> isSessionEnding \<or> isToolEnding then noteEnding st
         else if isToolStartActivity \<or> isAssistantDelta then noteOngoing st
         else st)"

subsection \<open>Structured records: the content blocks (lines 1117-1178)\<close>

text \<open>\<^verbatim>\<open>String(v)\<close>.\<close>

fun jsString :: "json \<Rightarrow> string" and jsJoin :: "json list \<Rightarrow> string" where
  "jsString JUndefined = ''undefined''"
| "jsString JNull = ''null''"
| "jsString (JBool b) = (if b then ''true'' else ''false'')"
| "jsString (JNum n) = showInt n"
| "jsString (JStr s) = s"
| "jsString (JArr xs) = jsJoin xs"
| "jsString (JObj kvs) = ''[object Object]''"
| "jsJoin [] = []"
| "jsJoin (x # xs) =
     (if nullish x then [] else jsString x) @ (if xs = [] then [] else '','' @ jsJoin xs)"

text \<open>
  \<^verbatim>\<open>shutdownToolIds.has(v)\<close>: a \<^verbatim>\<open>Set\<close> finds a primitive by value and an object only by
  identity, which a value decoded from another line never has.
\<close>

definition setHas :: "json list \<Rightarrow> json \<Rightarrow> bool" where
  "setHas ids v = (v \<in> set ids \<and> \<not> isObjectLike v)"

text \<open>One block of an assistant message; \<^verbatim>\<open>block.type\<close> on \<^verbatim>\<open>null\<close> throws.\<close>

definition assistantBlock :: "analyzer_state \<Rightarrow> json \<Rightarrow> error + analyzer_state" where
  "assistantBlock st block =
     (if nullish block then Inl TypeError
      else if getField block ''type'' = JStr ''thinking'' \<and> truthy (getField block ''thinking'')
        then Inr (noteOngoing st)
      else if getField block ''type'' = JStr ''tool_use'' \<and> truthy (getField block ''id'') then
        (if getField block ''name'' = JStr ''ExitPlanMode'' then Inr (noteEnding st)
         else if getField block ''name'' = JStr ''SendMessage''
                 \<and> getField (getField block ''input'') ''type'' = JStr ''shutdown_response''
                 \<and> getField (getField block ''input'') ''approve'' = JBool True
           then Inr (noteEnding (st\<lparr>shutdownToolIds := getField block ''id'' # shutdownToolIds st\<rparr>))
         else Inr (noteOngoing st))
      else if getField block ''type'' = JStr ''text'' \<and> truthy (getField block ''text'')
              \<and> length (trim (jsString (getField block ''text''))) > 0
        then Inr (noteEnding st)
      else Inr st)"

text \<open>One block of a user message.\<close>

definition userBlock :: "bool \<Rightarrow> analyzer_state \<Rightarrow> json \<Rightarrow> error + analyzer_state" where
  "userBlock isRejection st block =
     (if nullish block then Inl TypeError
      else if getField block ''type'' = JStr ''tool_result'' \<and> truthy (getField block ''tool_use_id'') then
        (if setHas (shutdownToolIds st) (getField block ''tool_use_id'') \<or> isRejection
         then Inr (noteEnding st)
         else Inr (noteOngoing st))
      else if getField block ''type'' = JStr ''text''
              \<and> (case getField block ''text'' of
                    JStr t \<Rightarrow> startsWith t ''[Request interrupted by user''
                  | _ \<Rightarrow> False)
        then Inr (noteEnding st)
      else Inr st)"

fun forBlocks ::
  "(analyzer_state \<Rightarrow> json \<Rightarrow> error + analyzer_state) \<Rightarrow> analyzer_state \<Rightarrow> json list
     \<Rightarrow> error + analyzer_state" where
  "forBlocks body st [] = Inr st"
| "forBlocks body st (block # blocks) =
     (case body st block of
        Inl err \<Rightarrow> Inl err
      | Inr st' \<Rightarrow> forBlocks body st' blocks)"

definition livenessStep :: "analyzer_state \<Rightarrow> json \<Rightarrow> parsed_message \<Rightarrow> error + analyzer_state" where
  "livenessStep st claudeEntry parsed =
     (if type parsed = Assistant \<and> isArray (content parsed)
        then forBlocks assistantBlock st (elements (content parsed))
      else if type parsed = User \<and> isArray (content parsed)
        then (let isRejection = (hasField claudeEntry ''toolUseResult''
                                 \<and> getField claudeEntry ''toolUseResult'' = JStr ''User rejected tool use'')
              in forBlocks (userBlock isRejection) st (elements (content parsed)))
      else Inr st)"

subsection \<open>Structured records: context consumption (lines 1180-1199)\<close>

definition setLastPost :: "compaction_phase list \<Rightarrow> int \<Rightarrow> compaction_phase list" where
  "setLastPost phases v = phases[length phases - 1 := (phases ! (length phases - 1))\<lparr>post := v\<rparr>]"

definition trackTokens :: "analyzer_state \<Rightarrow> parsed_message \<Rightarrow> analyzer_state" where
  "trackTokens st parsed =
     (if type parsed = Assistant \<and> \<not> truthy (isSidechain parsed) \<and> model parsed \<noteq> JStr ''<synthetic>''
      then
        (let inputTokens0 =
               numberOr0 (getField (usage parsed) ''input_tokens'')
               + numberOr0 (getField (usage parsed) ''cache_read_input_tokens'')
               + numberOr0 (getField (usage parsed) ''cache_creation_input_tokens'')
         in if inputTokens0 > 0
            then (if awaitingPostCompaction st \<and> length (compactionPhases st) > 0
                  then st\<lparr>compactionPhases := setLastPost (compactionPhases st) inputTokens0,
                          awaitingPostCompaction := False\<rparr>
                  else st)
                 \<lparr>lastMainAssistantInputTokens := inputTokens0,
                  observedTotals := observedTotals st @ [inputTokens0]\<rparr>
            else st)
      else st)"

definition detectCompaction :: "analyzer_state \<Rightarrow> parsed_message \<Rightarrow> analyzer_state" where
  "detectCompaction st parsed =
     (if isCompactSummary parsed
      then st\<lparr>compactionPhases :=
                compactionPhases st @ [\<lparr>pre = lastMainAssistantInputTokens st, post = 0\<rparr>],
              awaitingPostCompaction := True\<rparr>
      else st)"

subsection \<open>The loop and the result\<close>

text \<open>
  The body of the loop on one decoded line (lines 879-1199). \<^verbatim>\<open>entry.type\<close> on \<^verbatim>\<open>null\<close>
  throws, as \<^verbatim>\<open>parseChatHistoryEntry\<close> may; nothing catches either.
\<close>

definition analyzeEntry :: "env \<Rightarrow> int \<Rightarrow> analyzer_state \<Rightarrow> json \<Rightarrow> error + analyzer_state" where
  "analyzeEntry e now st entry =
     (if nullish entry then Inl TypeError
      else
       (let eventType = (case getField entry ''type'' of JStr s \<Rightarrow> s | _ \<Rightarrow> [])
        in if includesDot eventType then Inr (copilotEventStep st entry eventType)
           else
            (case parseChatHistoryEntry e now entry of
               Inl err \<Rightarrow> Inl err
             | Inr None \<Rightarrow> Inr st
             | Inr (Some parsed) \<Rightarrow>
                (case livenessStep st entry parsed of
                   Inl err \<Rightarrow> Inl err
                 | Inr st' \<Rightarrow> Inr (detectCompaction (trackTokens st' parsed) parsed)))))"

fun analyzeLinesFrom ::
  "env \<Rightarrow> (nat \<Rightarrow> int) \<Rightarrow> nat \<Rightarrow> analyzer_state \<Rightarrow> string list \<Rightarrow> error + analyzer_state" where
  "analyzeLinesFrom e clock i st [] = Inr st"
| "analyzeLinesFrom e clock i st (line # rest) =
     (let trimmed = trim line
      in if trimmed = [] then analyzeLinesFrom e clock (Suc i) st rest
         else (case jsonParse e trimmed of
                 None \<Rightarrow> analyzeLinesFrom e clock (Suc i) st rest
               | Some entry \<Rightarrow>
                  (case analyzeEntry e (clock i) st entry of
                     Inl err \<Rightarrow> Inl err
                   | Inr st' \<Rightarrow> analyzeLinesFrom e clock (Suc i) st' rest)))"

record phase_token_breakdown =
  phaseNumber :: nat
  contribution :: int
  peakTokens :: int
  postCompaction :: "int option"

text \<open>The loop of lines 1232-1241, from index \<open>i\<close>, on the running total and breakdown.\<close>

function middlePhases ::
  "compaction_phase list \<Rightarrow> nat \<Rightarrow> int \<times> phase_token_breakdown list
     \<Rightarrow> int \<times> phase_token_breakdown list" where
  "middlePhases phases i (total0, breakdown) =
     (if i < length phases
      then (let contribution0 = pre (phases ! i) - post (phases ! (i - 1))
            in middlePhases phases (Suc i)
                 (total0 + contribution0,
                  breakdown @ [\<lparr>phaseNumber = i + 1, contribution = contribution0,
                                peakTokens = pre (phases ! i),
                                postCompaction = Some (post (phases ! i))\<rparr>]))
      else (total0, breakdown))"
  by pat_completeness auto
termination
  by (relation "measure (\<lambda>(phases, i, acc). length phases - i)") auto

text \<open>Lines 1202-1259: \<^verbatim>\<open>contextConsumption\<close> and \<^verbatim>\<open>phaseBreakdown\<close>, \<open>None\<close> for \<^verbatim>\<open>undefined\<close>.\<close>

definition computeContext ::
  "int \<Rightarrow> compaction_phase list \<Rightarrow> int option \<times> phase_token_breakdown list option" where
  "computeContext lastMain phases =
     (if lastMain > 0 then
        (if length phases = 0 then
           (Some lastMain,
            Some [\<lparr>phaseNumber = 1, contribution = lastMain, peakTokens = lastMain,
                   postCompaction = None\<rparr>])
         else
          (let phase1Contribution = pre (phases ! 0);
               (total0, breakdown) =
                 middlePhases phases 1
                   (0 + phase1Contribution,
                    [\<lparr>phaseNumber = 1, contribution = phase1Contribution,
                      peakTokens = pre (phases ! 0),
                      postCompaction = Some (post (phases ! 0))\<rparr>]);
               lastPhase = phases ! (length phases - 1)
           in if post lastPhase > 0 then
                (let lastContribution = lastMain - post lastPhase
                 in (Some (total0 + lastContribution),
                     Some (breakdown @ [\<lparr>phaseNumber = length phases + 1,
                                          contribution = lastContribution,
                                          peakTokens = lastMain, postCompaction = None\<rparr>])))
              else (Some total0, Some breakdown)))
      else (None, None))"

text \<open>\<^verbatim>\<open>SessionFileMetadata\<close>, without \<^verbatim>\<open>firstUserMessage\<close>, \<^verbatim>\<open>messageCount\<close> and \<^verbatim>\<open>gitBranch\<close>.\<close>

record session_file_metadata =
  isOngoing :: bool
  contextConsumption :: "int option"
  compactionCount :: "nat option"
  phaseBreakdown :: "phase_token_breakdown list option"

definition summarize :: "analyzer_state \<Rightarrow> session_file_metadata" where
  "summarize st =
     \<lparr>isOngoing = (if lastEndingIndex st = - 1 then hasAnyOngoingActivity st
                   else hasActivityAfterLastEnding st),
      contextConsumption = fst (computeContext (lastMainAssistantInputTokens st) (compactionPhases st)),
      compactionCount = (if length (compactionPhases st) > 0
                         then Some (length (compactionPhases st)) else None),
      phaseBreakdown = snd (computeContext (lastMainAssistantInputTokens st) (compactionPhases st))\<rparr>"

definition analyzeSessionFileMetadata ::
  "env \<Rightarrow> (nat \<Rightarrow> int) \<Rightarrow> fs_provider \<Rightarrow> string \<Rightarrow> error + session_file_metadata" where
  "analyzeSessionFileMetadata e clock fs filePath =
     (if \<not> fsExists fs filePath
      then Inr \<lparr>isOngoing = False, contextConsumption = None, compactionCount = None,
                phaseBreakdown = None\<rparr>
      else (case analyzeLinesFrom e clock 0 initialState (fsLines fs filePath) of
              Inl err \<Rightarrow> Inl err
            | Inr st \<Rightarrow> Inr (summarize st)))"

section \<open>The search matcher (\<^verbatim>\<open>SessionSearcher.collectMatchesForEntry\<close>, lines 292-343)\<close>


datatype item_type = ItemUser | ItemAi


text \<open>
  \<^verbatim>\<open>SearchResult\<close>; the fields \<^verbatim>\<open>context\<close> and \<^verbatim>\<open>timestamp\<close> are \<open>contextText\<close> and
  \<open>resultTimestamp\<close> here.
\<close>

record search_result =
  sessionId :: string
  projectId :: string
  sessionTitle :: string
  matchedText :: string
  contextText :: string
  messageType :: message_type
  resultTimestamp :: int
  groupId :: string
  itemType :: item_type
  matchIndexInItem :: nat
  matchStartOffset :: int
  messageUuid :: string









section \<open>Sample inputs for the closed examples\<close>



text \<open>
  A sample environment. \<open>sampleJsonParse\<close> and \<open>sampleNewDate\<close> agree with \<^verbatim>\<open>JSON.parse\<close> and
  \<^verbatim>\<open>new Date\<close> on the texts the examples use (the lines of the examples that are not in the
  table are not valid JSON); the digest is a stand-in that returns its seed, so that the
  seed of an identifier can be read off the identifier.
\<close>

definition flatRecord :: json where
  "flatRecord = JObj [(''role'', JStr ''user''), (''content'', JStr ''hi'')]"

definition flatLine :: string where
  \<open>flatLine = ''{"role":"user","content":"hi"}''\<close>

definition badLine :: string where
  "badLine = ''{not json''"

definition arrayLine1 :: string where
  \<open>arrayLine1 = ''[{"role":"user",''\<close>

definition arrayLine2 :: string where
  \<open>arrayLine2 = ''"content":"hi"}]''\<close>

definition arrayText :: string where
  "arrayText = arrayLine1 @ [CHR 0x0A] @ arrayLine2"

text \<open>A record that is both a dotted event and a flat role/content record.\<close>

definition bothFormats :: json where
  "bothFormats =
     JObj [(''type'', JStr ''user.message''), (''role'', JStr ''user''), (''content'', JStr ''flat''),
           (''data'', JObj [(''content'', JStr ''event'')])]"

definition bothLine :: string where
  \<open>bothLine = ''{"type":"user.message","role":"user","content":"flat","data":{"content":"event"}}''\<close>

text \<open>A tool-start event, assistant records with usage, and a compact-summary record.\<close>

definition toolStartRecord :: json where
  "toolStartRecord = JObj [(''type'', JStr ''tool.execution_start''), (''data'', JObj [])]"

definition toolStartLine :: string where
  \<open>toolStartLine = ''{"type":"tool.execution_start","data":{}}''\<close>

definition assistantRecord :: "string \<Rightarrow> int \<Rightarrow> json" where
  "assistantRecord u n =
     JObj [(''type'', JStr ''assistant''), (''uuid'', JStr u),
           (''message'', JObj [(''usage'', JObj [(''input_tokens'', JNum n)])])]"

definition assistant100Line :: string where
  \<open>assistant100Line = ''{"type":"assistant","uuid":"a1","message":{"usage":{"input_tokens":100}}}''\<close>

definition assistant45Line :: string where
  \<open>assistant45Line = ''{"type":"assistant","uuid":"a2","message":{"usage":{"input_tokens":45}}}''\<close>

definition assistant60Line :: string where
  \<open>assistant60Line = ''{"type":"assistant","uuid":"a3","message":{"usage":{"input_tokens":60}}}''\<close>

definition compactRecord :: json where
  "compactRecord =
     JObj [(''type'', JStr ''user''), (''uuid'', JStr ''u1''), (''isCompactSummary'', JBool True),
           (''message'', JObj [(''content'', JStr ''summary'')])]"

definition compactLine :: string where
  \<open>compactLine = ''{"type":"user","uuid":"u1","isCompactSummary":true,"message":{"content":"summary"}}''\<close>

definition sampleDocuments :: "(string \<times> json) list" where
  "sampleDocuments =
     [(flatLine, flatRecord),
      (arrayText, JArr [flatRecord]),
      (bothLine, bothFormats),
      (toolStartLine, toolStartRecord),
      (assistant100Line, assistantRecord ''a1'' 100),
      (compactLine, compactRecord),
      (assistant45Line, assistantRecord ''a2'' 45),
      (assistant60Line, assistantRecord ''a3'' 60)]"

definition sampleJsonParse :: "string \<Rightarrow> json option" where
  "sampleJsonParse s = map_of sampleDocuments s"

definition sampleNewDate :: "json \<Rightarrow> int option" where
  "sampleNewDate v =
     (if v = JStr ''2026-01-01T00:00:01.000Z'' then Some 1767225601000
      else if v = JStr ''2026-01-01T00:00:02.000Z'' then Some 1767225602000
      else None)"

definition sampleEnv :: env where
  "sampleEnv =
     \<lparr>jsonParse = sampleJsonParse,
      sha256hex = (\<lambda>seed. seed),
      newDate = sampleNewDate,
      toISOString = showInt,
      extractToolCalls = (\<lambda>c. JArr []),
      extractToolResults = (\<lambda>c. JArr [])\<rparr>"

definition sampleClock :: "nat \<Rightarrow> int" where
  "sampleClock i = 1767225700000 + int i"


text \<open>A flat record that carries an identifier of its own.\<close>

definition idRecord :: json where
  "idRecord = JObj [(''role'', JStr ''user''), (''content'', JStr ''hi''), (''id'', JStr ''msg-1'')]"

text \<open>A provider whose every file is the two-line document \<open>arrayText\<close>.\<close>

definition sampleFs :: fs_provider where
  "sampleFs =
     \<lparr>fsExists = (\<lambda>p. True),
      fsLines = (\<lambda>p. [arrayLine1, arrayLine2]),
      fsReadFile = (\<lambda>p. Some arrayText)\<rparr>"

text \<open>
  Two more providers: a file of a flat record and a tool-start event, and a file with an
  assistant message of 100 input tokens, a compaction, and assistant messages of 45 and 60.
\<close>

definition eventFs :: fs_provider where
  "eventFs =
     \<lparr>fsExists = (\<lambda>p. True),
      fsLines = (\<lambda>p. [flatLine, toolStartLine]),
      fsReadFile = (\<lambda>p. None)\<rparr>"


section \<open>The claims in the words of the spec\<close>


text \<open>
  Spec 4.1: "attempt interpretations in fixed priority order and return the first success":
  1. structured event format, 2. flat role/content format, 3. dotted event-name format.
\<close>

definition parseInSpecOrder :: "env \<Rightarrow> int \<Rightarrow> json \<Rightarrow> error + parsed_message option" where
  "parseInSpecOrder e now entry =
     (case parseChatHistoryEntry e now entry of
        Inl err \<Rightarrow> Inl err
      | Inr (Some structured) \<Rightarrow> Inr (Some structured)
      | Inr None \<Rightarrow>
         (case parseCopilotMessageEntry e now entry of
            Some flat \<Rightarrow> Inr (Some flat)
          | None \<Rightarrow> Inr (parseCopilotEventEntry e now entry)))"

text \<open>
  The fields of a flat record that \<^verbatim>\<open>parseCopilotMessageEntry\<close> takes the seed of the
  identifier from, in the order it asks for them: \<^verbatim>\<open>uuid\<close>, \<^verbatim>\<open>id\<close>, and the raw timestamp.
\<close>

definition flatSeedSource :: "json \<Rightarrow> string option" where
  "flatSeedSource entry =
     orOpt (asString (getField entry ''uuid''))
       (orOpt (asString (getField entry ''id''))
         (orOpt (asString (getField entry ''timestamp''))
           (orOpt (asString (getField entry ''createdAt''))
             (orOpt (asString (getField entry ''time''))
               (asString (getField (getField entry ''message'') ''timestamp''))))))"

text \<open>
  Spec 4.1: the identifier of a synthesized message is "derived by hashing a
  format-specific seed string".
\<close>

definition hashedId :: "env \<Rightarrow> parsed_message \<Rightarrow> bool" where
  "hashedId e m = (\<exists>seed. uuid m = JStr (stableUuid e seed))"

text \<open>
  Spec 4.3, liveness: "liveness = true if no ending event has ever occurred and at least
  one ongoing-activity event occurred; otherwise liveness = true only if an
  ongoing-activity event occurred strictly after the most recent ending event's index".
  \<open>lastEndingOf h\<close> is the index of the last ending event of the history \<open>h\<close>, -1 when
  there is none.
\<close>

definition lastEndingOf :: "activity list \<Rightarrow> int" where
  "lastEndingOf h =
     (if Ending \<in> set h
      then int (length h) - 1 - int (length (takeWhile (\<lambda>a. a \<noteq> Ending) (rev h)))
      else - 1)"

definition ongoingAfterLastEnding :: "activity list \<Rightarrow> bool" where
  "ongoingAfterLastEnding h =
     list_ex (\<lambda>i. h ! i = Ongoing \<and> lastEndingOf h < int i) [0..<length h]"




text \<open>
  The four fields that claim C9 names, and the records on which the structured
  interpretation returns null: those with no truthy \<^verbatim>\<open>uuid\<close> or no recognized \<^verbatim>\<open>type\<close>.
\<close>

definition synthesized :: "parsed_message \<Rightarrow> bool" where
  "synthesized m =
     (usage m = JUndefined \<and> isSidechain m = JBool False \<and> isMeta m = JBool False
      \<and> \<not> isCompactSummary m)"

definition notStructured :: "json \<Rightarrow> bool" where
  "notStructured entry =
     (\<not> nullish entry
      \<and> (\<not> truthy (getField entry ''uuid'') \<or> parseMessageType (getField entry ''type'') = None))"

definition decodesUnstructured :: "env \<Rightarrow> string \<Rightarrow> bool" where
  "decodesUnstructured e s =
     (case jsonParse e s of None \<Rightarrow> True | Some entry \<Rightarrow> notStructured entry)"

section \<open>Invariants of the streaming analyzer\<close>

text \<open>
  The invariant of the liveness variables: they are the summary of the history that the
  spec describes.
\<close>

definition livenessInv :: "analyzer_state \<Rightarrow> bool" where
  "livenessInv st =
     (activityIndex st = int (length (history st))
      \<and> lastEndingIndex st = lastEndingOf (history st)
      \<and> hasAnyOngoingActivity st = (Ongoing \<in> set (history st))
      \<and> hasActivityAfterLastEnding st
          = (Ending \<in> set (history st) \<and> ongoingAfterLastEnding (history st)))"

text \<open>
  The invariant of the context tracker: the last main-thread total is the last total
  observed (0 when there is none), and every observed total is positive.
\<close>

definition contextInv :: "analyzer_state \<Rightarrow> bool" where
  "contextInv st =
     (lastMainAssistantInputTokens st
        = (if observedTotals st = [] then 0 else last (observedTotals st))
      \<and> list_all (\<lambda>x. 0 < x) (observedTotals st))"

text \<open>The variables of the context tracker, which the liveness code leaves alone.\<close>

definition contextVars :: "analyzer_state \<Rightarrow> int \<times> int list \<times> compaction_phase list \<times> bool" where
  "contextVars st =
     (lastMainAssistantInputTokens st, observedTotals st, compactionPhases st, awaitingPostCompaction st)"

section \<open>Metrics: the counters add up over a split\<close>



lemma sumUsage_Nil: "sumUsage [] = (0, 0, 0, 0)"
  by (simp add: sumUsage_def)

lemma calculateMetrics_counters:
  "inputTokens (calculateMetrics ms) = fst (sumUsage ms)
   \<and> outputTokens (calculateMetrics ms) = fst (snd (sumUsage ms))
   \<and> cacheReadTokens (calculateMetrics ms) = fst (snd (snd (sumUsage ms)))
   \<and> cacheCreationTokens (calculateMetrics ms) = snd (snd (snd (sumUsage ms)))
   \<and> totalTokens (calculateMetrics ms) =
       fst (sumUsage ms) + snd (snd (snd (sumUsage ms))) + fst (snd (snd (sumUsage ms)))
       + fst (snd (sumUsage ms))"
  by (cases ms) (simp_all add: calculateMetrics_def EMPTY_METRICS_def sumUsage_Nil Let_def
      split: prod.splits)


section \<open>Evaluating strings\<close>

lemmas string_eval = toLowerCase_def lowerChar_def char_of_def bit_Suc_0_iff Let_def

section \<open>Search: the context window of every match\<close>







section \<open>Parent chains follow the order of the list\<close>









section \<open>Synthesized messages: evaluation lemmas\<close>

lemma uuid_build [simp]:
  "uuid (buildCopilotMessage e t c ts seed cwd0 model0) = JStr (stableUuid e seed)"
  by (simp add: buildCopilotMessage_def)

lemma type_build [simp]:
  "type (buildCopilotMessage e t c ts seed cwd0 model0) = t"
  by (simp add: buildCopilotMessage_def)

lemma content_build [simp]:
  "content (buildCopilotMessage e t c ts seed cwd0 model0) = c"
  by (simp add: buildCopilotMessage_def)

lemma orOpt_None [simp]: "(orOpt a b = None) = (a = None \<and> b = None)"
  by (cases a) simp_all

lemma hashedId_build [simp]: "hashedId e (buildCopilotMessage e t c ts seed cwd0 model0)"
  by (auto simp add: hashedId_def)

lemma event_uuid_clock:
  "map_option uuid (parseCopilotEventEntry e now1 entry) = map_option uuid (parseCopilotEventEntry e now2 entry)"
  by (simp add: parseCopilotEventEntry_def Let_def split: option.splits)

lemma event_hashed:
  "case_option True (hashedId e) (parseCopilotEventEntry e now entry)"
  by (simp add: parseCopilotEventEntry_def Let_def split: option.splits)

lemma flat_uuid_clock:
  "flatSeedSource entry \<noteq> None \<Longrightarrow>
   map_option uuid (parseCopilotMessageEntry e now1 entry) = map_option uuid (parseCopilotMessageEntry e now2 entry)"
  by (auto simp add: parseCopilotMessageEntry_def flatSeedSource_def Let_def split: option.splits)

lemma flat_uuid:
  "case parseCopilotMessageEntry e now entry of
     None \<Rightarrow> True
   | Some m \<Rightarrow>
     uuid m = JStr (stableUuid e
       (case orOpt (asString (getField entry ''uuid'')) (asString (getField entry ''id'')) of
          Some s \<Rightarrow> s
        | None \<Rightarrow> ''copilot-'' @ typeName (type m) @ ''-''
            @ (case flatSeedSource entry of Some t \<Rightarrow> t | None \<Rightarrow> showInt now)))"
  by (auto simp add: parseCopilotMessageEntry_def flatSeedSource_def Let_def split: option.splits)

lemmas sample_text = flatLine_def badLine_def arrayLine1_def arrayLine2_def arrayText_def bothLine_def
  toolStartLine_def assistant100Line_def assistant45Line_def assistant60Line_def compactLine_def

lemmas sample_env = sampleEnv_def sampleJsonParse_def sampleDocuments_def sampleNewDate_def

lemma trim_flatLine: "trim flatLine = flatLine"
  by (simp add: trim_def isWhiteSpace_def flatLine_def)

lemma trim_bothLine: "trim bothLine = bothLine"
  by (simp add: trim_def isWhiteSpace_def bothLine_def)

lemma parse_flatLine: "jsonParse sampleEnv flatLine = Some flatRecord"
  by (simp add: sample_env sample_text)

lemma parse_bothLine: "jsonParse sampleEnv bothLine = Some bothFormats"
  by (simp add: sample_env sample_text)

lemma structured_flatRecord: "parseChatHistoryEntry e now flatRecord = Inr None"
  by (simp add: parseChatHistoryEntry_def flatRecord_def)

lemma structured_bothFormats: "parseChatHistoryEntry e now bothFormats = Inr None"
  by (simp add: parseChatHistoryEntry_def bothFormats_def)

lemma event_flatRecord: "parseCopilotEventEntry e now flatRecord = None"
  by (simp add: parseCopilotEventEntry_def flatRecord_def)

lemma digitsOf_pos:
  "0 < fuel \<Longrightarrow> digitsOf fuel n =
     (if n < 10 then [char_of (48 + n)]
      else digitsOf (fuel - 1) (n div 10) @ [char_of (48 + n mod 10)])"
  by (cases fuel) simp_all

lemmas show_eval = showInt_def showNat_def digitsOf_pos

lemma trim_flatLine_ne: "trim flatLine \<noteq> []"
  unfolding trim_flatLine by (simp add: flatLine_def)

lemma trim_bothLine_ne: "trim bothLine \<noteq> []"
  unfolding trim_bothLine by (simp add: bothLine_def)

lemma flat_flatRecord:
  "map_option uuid (parseCopilotMessageEntry sampleEnv 1 flatRecord) = Some (JStr ''copilot-user-1'')
   \<and> map_option uuid (parseCopilotMessageEntry sampleEnv 2 flatRecord) = Some (JStr ''copilot-user-2'')"
  by (simp add: parseCopilotMessageEntry_def flatRecord_def normalizeRole_def string_eval
      stableUuid_def sampleEnv_def show_eval)

lemma event_bothFormats:
  "map_option content (parseCopilotEventEntry e now bothFormats) = Some (JStr ''event'')"
  by (simp add: parseCopilotEventEntry_def bothFormats_def includesDot_def trim_def isWhiteSpace_def)

lemma flat_bothFormats:
  "map_option content (parseCopilotMessageEntry e now bothFormats) = Some (JStr ''flat'')"
  by (simp add: parseCopilotMessageEntry_def bothFormats_def normalizeRole_def string_eval)

lemma structured_None_iff:
  "parseChatHistoryEntry e now entry = Inr structured \<Longrightarrow>
   (structured = None) = (\<not> truthy (getField entry ''uuid'') \<or> parseMessageType (getField entry ''type'') = None)"
  by (auto simp add: parseChatHistoryEntry_def Let_def split: if_splits option.splits)

section \<open>The priority order of the three formats\<close>

text \<open>
  Claim C1 fails as stated. The record \<open>bothFormats\<close> has no \<^verbatim>\<open>uuid\<close>, a \<^verbatim>\<open>type\<close> with a dot
  and a \<^verbatim>\<open>data\<close> object, and also a \<^verbatim>\<open>role\<close> and a \<^verbatim>\<open>content\<close>. In the order of the spec
  (structured, flat, dotted) the result would be the flat message, with content "flat";
  \<^verbatim>\<open>parseJsonlLine\<close> tries the dotted event format before the flat one and returns the event
  message, with content "event".
\<close>

theorem priority_counterexample:
  "jsonParse sampleEnv bothLine = Some bothFormats
   \<and> map_sum id (map_option content) (parseJsonlLine sampleEnv 0 bothLine) = Inr (Some (JStr ''event''))
   \<and> map_sum id (map_option content) (parseInSpecOrder sampleEnv 0 bothFormats) = Inr (Some (JStr ''flat''))"
proof -
  obtain ev where ev: "parseCopilotEventEntry sampleEnv 0 bothFormats = Some ev" "content ev = JStr ''event''"
    using event_bothFormats [of sampleEnv 0] by auto
  obtain fl where fl: "parseCopilotMessageEntry sampleEnv 0 bothFormats = Some fl" "content fl = JStr ''flat''"
    using flat_bothFormats [of sampleEnv 0] by auto
  have t: "trim bothLine \<noteq> []"
    by (rule trim_bothLine_ne)
  show ?thesis
    using t by (simp add: parseJsonlLine_def parseDecodedEntry_def parseInSpecOrder_def parse_bothLine
        structured_bothFormats ev fl)
qed

text \<open>
  Claim C1, amended. For a line that is not blank and decodes to a record on which the
  structured interpretation returns (a message or null), \<^verbatim>\<open>parseJsonlLine\<close> returns the
  first success in the order structured format, dotted event-name format, flat
  role/content format, and null when none matches. The structured interpretation returns
  null exactly when the record has no truthy \<^verbatim>\<open>uuid\<close> or its \<^verbatim>\<open>type\<close> is not one of the six
  recognized types.
\<close>

theorem parseJsonlLine_priority:
  assumes "trim line \<noteq> []" and "jsonParse e line = Some entry"
    and "parseChatHistoryEntry e now entry = Inr structured"
  shows "parseJsonlLine e now line =
     Inr (case structured of
            Some claudeEntry \<Rightarrow> Some claudeEntry
          | None \<Rightarrow>
             (case parseCopilotEventEntry e now entry of
                Some copilotEvent \<Rightarrow> Some copilotEvent
              | None \<Rightarrow> parseCopilotMessageEntry e now entry))
   \<and> ((structured = None)
        = (\<not> truthy (getField entry ''uuid'') \<or> parseMessageType (getField entry ''type'') = None))"
proof (rule conjI)
  show "parseJsonlLine e now line =
     Inr (case structured of
            Some claudeEntry \<Rightarrow> Some claudeEntry
          | None \<Rightarrow>
             (case parseCopilotEventEntry e now entry of
                Some copilotEvent \<Rightarrow> Some copilotEvent
              | None \<Rightarrow> parseCopilotMessageEntry e now entry))"
    using assms
    by (cases structured) (simp_all add: parseJsonlLine_def parseDecodedEntry_def split: option.splits)
  show "(structured = None)
        = (\<not> truthy (getField entry ''uuid'') \<or> parseMessageType (getField entry ''type'') = None)"
    using assms(3) by (rule structured_None_iff)
qed

theorem parseJsonlLine_priority_witness:
  "trim bothLine \<noteq> [] \<and> jsonParse sampleEnv bothLine = Some bothFormats
   \<and> parseChatHistoryEntry sampleEnv 0 bothFormats = Inr None
   \<and> map_sum id (map_option content) (parseJsonlLine sampleEnv 0 bothLine) = Inr (Some (JStr ''event''))"
proof -
  have t: "trim bothLine \<noteq> []"
    by (rule trim_bothLine_ne)
  obtain ev where ev: "parseCopilotEventEntry sampleEnv 0 bothFormats = Some ev" "content ev = JStr ''event''"
    using event_bothFormats [of sampleEnv 0] by auto
  show ?thesis
    using t ev parseJsonlLine_priority [OF t parse_bothLine structured_bothFormats [of sampleEnv 0]]
    by (simp add: parse_bothLine structured_bothFormats)
qed

section \<open>Identifiers of synthesized messages\<close>

text \<open>
  Claim C5 fails as stated. The line \<open>flatLine\<close> is a flat record with no \<^verbatim>\<open>uuid\<close>, \<^verbatim>\<open>id\<close> or
  timestamp: its seed is \<^verbatim>\<open>copilot-user-\<close> followed by \<^verbatim>\<open>Date.now()\<close>. Parsed at clock
  reading 1 and at clock reading 2, the same line gets the seeds \<^verbatim>\<open>copilot-user-1\<close> and
  \<^verbatim>\<open>copilot-user-2\<close> (the digest of the sample environment returns its seed), hence two
  identifiers.
\<close>

theorem flatId_clock_counterexample:
  "map_sum id (map_option uuid) (parseJsonlLine sampleEnv 1 flatLine) = Inr (Some (JStr ''copilot-user-1''))
   \<and> map_sum id (map_option uuid) (parseJsonlLine sampleEnv 2 flatLine) = Inr (Some (JStr ''copilot-user-2''))"
  using flat_flatRecord
  by (simp add: parseJsonlLine_def parseDecodedEntry_def trim_flatLine_ne parse_flatLine
      structured_flatRecord event_flatRecord)

text \<open>
  Claim C5, amended. The identifier of a message synthesized from the dotted event-name
  format does not depend on the clock and is the digest of a seed. The identifier of a
  message synthesized from the flat format is the digest of the record's \<^verbatim>\<open>uuid\<close> or \<^verbatim>\<open>id\<close>
  when it has one, else of \<^verbatim>\<open>copilot-<role>-\<close> followed by its raw timestamp, and only when it
  has none of these of \<^verbatim>\<open>copilot-<role>-\<close> followed by the clock reading; so it does not
  depend on the clock when the record has a string \<^verbatim>\<open>uuid\<close>, \<^verbatim>\<open>id\<close> or timestamp field.
\<close>

theorem synthesizedId_deterministic:
  "map_option uuid (parseCopilotEventEntry e now1 entry) = map_option uuid (parseCopilotEventEntry e now2 entry)
   \<and> (flatSeedSource entry \<noteq> None \<longrightarrow>
        map_option uuid (parseCopilotMessageEntry e now1 entry)
          = map_option uuid (parseCopilotMessageEntry e now2 entry))
   \<and> (case parseCopilotEventEntry e now1 entry of None \<Rightarrow> True | Some m \<Rightarrow> hashedId e m)
   \<and> (case parseCopilotMessageEntry e now1 entry of
         None \<Rightarrow> True
       | Some m \<Rightarrow>
         uuid m = JStr (stableUuid e
           (case orOpt (asString (getField entry ''uuid'')) (asString (getField entry ''id'')) of
              Some s \<Rightarrow> s
            | None \<Rightarrow> ''copilot-'' @ typeName (type m) @ ''-''
                @ (case flatSeedSource entry of Some t \<Rightarrow> t | None \<Rightarrow> showInt now1))))"
  using event_uuid_clock [of e now1 entry now2] flat_uuid_clock [of entry e now1 now2]
    event_hashed [of e now1 entry] flat_uuid [of e now1 entry]
  by simp

theorem synthesizedId_deterministic_witness:
  "flatSeedSource idRecord \<noteq> None
   \<and> map_option uuid (parseCopilotMessageEntry sampleEnv 1 idRecord) = Some (JStr ''msg-1'')
   \<and> map_option uuid (parseCopilotMessageEntry sampleEnv 2 idRecord) = Some (JStr ''msg-1'')"
proof -
  have s: "flatSeedSource idRecord \<noteq> None"
    by (simp add: flatSeedSource_def idRecord_def)
  have u: "map_option uuid (parseCopilotMessageEntry sampleEnv 1 idRecord) = Some (JStr ''msg-1'')"
    by (simp add: parseCopilotMessageEntry_def idRecord_def normalizeRole_def string_eval
        stableUuid_def sampleEnv_def)
  show ?thesis
    using s u synthesizedId_deterministic [of sampleEnv 1 idRecord 2] by simp
qed

section \<open>Malformed lines\<close>

lemma parseLinesFrom_append:
  "parseLinesFrom e clock i (xs @ ys) =
     (fst (parseLinesFrom e clock i xs) @ fst (parseLinesFrom e clock (i + length xs) ys),
      snd (parseLinesFrom e clock i xs) @ snd (parseLinesFrom e clock (i + length xs) ys))"
proof (induction xs arbitrary: i)
  case Nil
  show ?case by simp
next
  case (Cons x xs)
  show ?case
    using Cons.IH [of "Suc i"]
    by (simp add: Let_def split: prod.splits sum.splits option.splits)
qed

lemma parseLinesFrom_bad:
  "trim line \<noteq> [] \<Longrightarrow> jsonParse e line = None \<Longrightarrow>
   parseLinesFrom e clock i (line # rest) =
     (fst (parseLinesFrom e clock (Suc i) rest), SyntaxError # snd (parseLinesFrom e clock (Suc i) rest))"
  by (simp add: parseJsonlLine_def split: prod.splits)

lemma trim_badLine_ne: "trim badLine \<noteq> []"
  by (simp add: trim_def isWhiteSpace_def badLine_def)

lemma parse_badLine: "jsonParse sampleEnv badLine = None"
  by (simp add: sample_env sample_text)

lemma flat_flatRecord_content:
  "map_option content (parseCopilotMessageEntry e now flatRecord) = Some (JStr ''hi'')"
  by (simp add: parseCopilotMessageEntry_def flatRecord_def normalizeRole_def string_eval)

lemma flatLine_parsed:
  "map_sum id (map_option content) (parseJsonlLine sampleEnv now flatLine) = Inr (Some (JStr ''hi''))"
  by (simp add: parseJsonlLine_def parseDecodedEntry_def trim_flatLine_ne parse_flatLine
      structured_flatRecord event_flatRecord flat_flatRecord_content)

text \<open>
  Claim C10. On a line that is not blank and that \<^verbatim>\<open>JSON.parse\<close> rejects, \<^verbatim>\<open>parseJsonlLine\<close>
  throws the SyntaxError (it does not return null). In the loop of \<^verbatim>\<open>parseJsonlFile\<close> the
  error is caught and logged and the line is skipped: the messages of the file are those
  of the lines before it followed by those of the lines after it, and the log gains one
  SyntaxError between theirs.
\<close>

theorem malformedLine_skipped:
  assumes "trim line \<noteq> []" and "jsonParse e line = None"
  shows "parseJsonlLine e now line = Inl SyntaxError
   \<and> parseLinesFrom e clock i (before @ line # after) =
       (fst (parseLinesFrom e clock i before) @ fst (parseLinesFrom e clock (i + length before + 1) after),
        snd (parseLinesFrom e clock i before) @ SyntaxError # snd (parseLinesFrom e clock (i + length before + 1) after))"
proof (rule conjI)
  show "parseJsonlLine e now line = Inl SyntaxError"
    using assms by (simp add: parseJsonlLine_def)
  show "parseLinesFrom e clock i (before @ line # after) =
       (fst (parseLinesFrom e clock i before) @ fst (parseLinesFrom e clock (i + length before + 1) after),
        snd (parseLinesFrom e clock i before) @ SyntaxError # snd (parseLinesFrom e clock (i + length before + 1) after))"
  proof -
    have s: "parseLinesFrom e clock (i + length before) (line # after) =
       (fst (parseLinesFrom e clock (Suc (i + length before)) after),
        SyntaxError # snd (parseLinesFrom e clock (Suc (i + length before)) after))"
      by (rule parseLinesFrom_bad [OF assms])
    show ?thesis
      unfolding parseLinesFrom_append s by simp
  qed
qed

theorem malformedLine_skipped_witness:
  "trim badLine \<noteq> [] \<and> jsonParse sampleEnv badLine = None
   \<and> parseJsonlLine sampleEnv 0 badLine = Inl SyntaxError
   \<and> map content (fst (parseLinesFrom sampleEnv sampleClock 0 [flatLine, badLine, flatLine]))
       = [JStr ''hi'', JStr ''hi'']
   \<and> snd (parseLinesFrom sampleEnv sampleClock 0 [flatLine, badLine, flatLine]) = [SyntaxError]"
proof -
  obtain m0 where m0: "parseJsonlLine sampleEnv (sampleClock 0) flatLine = Inr (Some m0)" "content m0 = JStr ''hi''"
    using flatLine_parsed [of "sampleClock 0"]
    by (cases "parseJsonlLine sampleEnv (sampleClock 0) flatLine") (auto split: option.splits)
  obtain m2 where m2: "parseJsonlLine sampleEnv (sampleClock (Suc (Suc 0))) flatLine = Inr (Some m2)"
      "content m2 = JStr ''hi''"
    using flatLine_parsed [of "sampleClock (Suc (Suc 0))"]
    by (cases "parseJsonlLine sampleEnv (sampleClock (Suc (Suc 0))) flatLine") (auto split: option.splits)
  have bad: "parseJsonlLine sampleEnv now badLine = Inl SyntaxError" for now
    using trim_badLine_ne parse_badLine by (simp add: parseJsonlLine_def)
  have whole: "parseLinesFrom sampleEnv sampleClock 0 [flatLine, badLine, flatLine] = ([m0, m2], [SyntaxError])"
    by (simp add: m0 m2 bad trim_flatLine_ne trim_badLine_ne)
  from malformedLine_skipped [OF trim_badLine_ne parse_badLine, of 0 sampleClock 0 "[]" "[]"]
  have bad0: "parseJsonlLine sampleEnv 0 badLine = Inl SyntaxError"
    by (rule conjunct1)
  show ?thesis
    using bad0 unfolding whole by (simp add: m0 m2 trim_badLine_ne parse_badLine)
qed


section \<open>The whole-document fallback\<close>

lemma endsWith_eval: "endsWith s p = prefix (rev p) (rev s)"
  by (simp add: endsWith_def suffix_to_prefix)

lemma trim_arrayLine1_ne: "trim arrayLine1 \<noteq> []"
  by (simp add: trim_def isWhiteSpace_def arrayLine1_def)

lemma trim_arrayLine2_ne: "trim arrayLine2 \<noteq> []"
  by (simp add: trim_def isWhiteSpace_def arrayLine2_def)

lemma parse_arrayLine1: "jsonParse sampleEnv arrayLine1 = None"
  by (simp add: sample_env sample_text)

lemma parse_arrayLine2: "jsonParse sampleEnv arrayLine2 = None"
  by (simp add: sample_env sample_text)

lemma parse_arrayText: "jsonParse sampleEnv arrayText = Some (JArr [flatRecord])"
  by (simp add: sample_env sample_text)

lemma sampleFs_lines: "fst (parseLinesFrom sampleEnv sampleClock 0 (fsLines sampleFs p)) = []"
  by (simp add: sampleFs_def parseJsonlLine_def trim_arrayLine1_ne trim_arrayLine2_ne
      parse_arrayLine1 parse_arrayLine2)

lemma sampleFs_document:
  "map content (parseCopilotJsonFile sampleEnv sampleClock sampleFs p) = [JStr ''hi'']"
proof -
  obtain m where m: "parseCopilotMessageEntry sampleEnv (sampleClock 0) flatRecord = Some m"
      "content m = JStr ''hi''"
    using flat_flatRecord_content [of sampleEnv "sampleClock 0"] by auto
  show ?thesis
    by (simp add: parseCopilotJsonFile_def sampleFs_def parse_arrayText parseCopilotTranscript_def
        parseCopilotMessageArray_def assignParentUuids_def m)
qed

text \<open>
  Claim C6 fails as stated. Every file of \<open>sampleFs\<close> is a JSON array written on two lines,
  neither of which is valid JSON on its own, so line-delimited parsing yields no message.
  For the path \<^verbatim>\<open>session.jsonl\<close> \<^verbatim>\<open>parseJsonlFile\<close> returns no message, although the whole
  document holds one: the fallback is taken only for a path that ends in \<^verbatim>\<open>.json\<close>.
\<close>

theorem jsonlExtension_counterexample:
  "fsExists sampleFs ''session.jsonl''
   \<and> fst (parseLinesFrom sampleEnv sampleClock 0 (fsLines sampleFs ''session.jsonl'')) = []
   \<and> parseJsonlFile sampleEnv sampleClock sampleFs ''session.jsonl'' = []
   \<and> map content (parseCopilotJsonFile sampleEnv sampleClock sampleFs ''session.jsonl'') = [JStr ''hi'']"
proof -
  have x: "fsExists sampleFs ''session.jsonl''"
    by (simp add: sampleFs_def)
  have n: "\<not> endsWith (toLowerCase ''session.jsonl'') ''.json''"
    by (simp add: endsWith_eval string_eval)
  have "parseJsonlFile sampleEnv sampleClock sampleFs ''session.jsonl'' = []"
    using x n by (simp add: parseJsonlFile_def sampleFs_lines consolidateCopilotDeltas_def)
  then show ?thesis
    using x sampleFs_lines [of "''session.jsonl''"] sampleFs_document [of "''session.jsonl''"] by simp
qed

text \<open>
  Claim C6, amended. For an existing file on which line-delimited parsing yields no
  message, \<^verbatim>\<open>parseJsonlFile\<close> loads the entire document and dispatches on its shape if the
  path, in lower case, ends in \<^verbatim>\<open>.json\<close>, and returns no message otherwise. The fallback
  decodes the whole text and dispatches: a top-level array is a message array; an object
  with a \<^verbatim>\<open>messages\<close> array likewise; an object with a \<^verbatim>\<open>requests\<close> or \<^verbatim>\<open>turns\<close> array is a
  request array; any other object is tried as a single flat message.
\<close>

theorem wholeDocument_fallback:
  assumes "fsExists fs filePath" and "fst (parseLinesFrom e clock 0 (fsLines fs filePath)) = []"
  shows "parseJsonlFile e clock fs filePath =
       (if endsWith (toLowerCase filePath) ''.json'' then parseCopilotJsonFile e clock fs filePath else [])
   \<and> (fsReadFile fs filePath = Some raw \<and> jsonParse e raw = Some data
        \<longrightarrow> parseCopilotJsonFile e clock fs filePath = parseCopilotTranscript e clock data)
   \<and> parseCopilotTranscript e clock (JArr items) = parseCopilotMessageArray e clock items
   \<and> parseCopilotTranscript e clock (JObj kvs) =
       (if isArray (getField (JObj kvs) ''messages'')
          then parseCopilotMessageArray e clock (elements (getField (JObj kvs) ''messages''))
        else if isArray (getField (JObj kvs) ''requests'')
          then parseCopilotRequestArray e clock (elements (getField (JObj kvs) ''requests''))
        else if isArray (getField (JObj kvs) ''turns'')
          then parseCopilotRequestArray e clock (elements (getField (JObj kvs) ''turns''))
        else (case parseCopilotMessageEntry e (clock 0) (JObj kvs) of
                Some single \<Rightarrow> [single]
              | None \<Rightarrow> []))"
proof -
  have 1: "parseJsonlFile e clock fs filePath =
       (if endsWith (toLowerCase filePath) ''.json'' then parseCopilotJsonFile e clock fs filePath else [])"
    using assms by (simp add: parseJsonlFile_def consolidateCopilotDeltas_def)
  have 2: "fsReadFile fs filePath = Some raw \<and> jsonParse e raw = Some data
        \<longrightarrow> parseCopilotJsonFile e clock fs filePath = parseCopilotTranscript e clock data"
    by (simp add: parseCopilotJsonFile_def)
  have 3: "parseCopilotTranscript e clock (JArr items) = parseCopilotMessageArray e clock items"
    by (simp add: parseCopilotTranscript_def)
  have 4: "parseCopilotTranscript e clock (JObj kvs) =
       (if isArray (getField (JObj kvs) ''messages'')
          then parseCopilotMessageArray e clock (elements (getField (JObj kvs) ''messages''))
        else if isArray (getField (JObj kvs) ''requests'')
          then parseCopilotRequestArray e clock (elements (getField (JObj kvs) ''requests''))
        else if isArray (getField (JObj kvs) ''turns'')
          then parseCopilotRequestArray e clock (elements (getField (JObj kvs) ''turns''))
        else (case parseCopilotMessageEntry e (clock 0) (JObj kvs) of
                Some single \<Rightarrow> [single]
              | None \<Rightarrow> []))"
    unfolding parseCopilotTranscript_def by simp
  show ?thesis using 1 2 3 4 by blast
qed

theorem wholeDocument_fallback_witness:
  "fsExists sampleFs ''session.json''
   \<and> fst (parseLinesFrom sampleEnv sampleClock 0 (fsLines sampleFs ''session.json'')) = []
   \<and> map content (parseJsonlFile sampleEnv sampleClock sampleFs ''session.json'') = [JStr ''hi'']"
proof -
  have x: "fsExists sampleFs ''session.json''"
    by (simp add: sampleFs_def)
  have y: "endsWith (toLowerCase ''session.json'') ''.json''"
    by (simp add: endsWith_eval string_eval)
  from wholeDocument_fallback [OF x sampleFs_lines]
  have "parseJsonlFile sampleEnv sampleClock sampleFs ''session.json'' =
       (if endsWith (toLowerCase ''session.json'') ''.json''
        then parseCopilotJsonFile sampleEnv sampleClock sampleFs ''session.json'' else [])"
    by (rule conjunct1)
  then have "parseJsonlFile sampleEnv sampleClock sampleFs ''session.json''
      = parseCopilotJsonFile sampleEnv sampleClock sampleFs ''session.json''"
    using y by simp
  then show ?thesis
    using x sampleFs_lines [of "''session.json''"] sampleFs_document [of "''session.json''"] by simp
qed

section \<open>Liveness: the state machine summarizes the history of classified events\<close>

lemma lastEndingOf_snoc_Ending: "lastEndingOf (h @ [Ending]) = int (length h)"
  by (simp add: lastEndingOf_def)

lemma lastEndingOf_snoc_Ongoing: "lastEndingOf (h @ [Ongoing]) = lastEndingOf h"
  by (simp add: lastEndingOf_def)

lemma takeWhile_shorter: "x \<in> set xs \<Longrightarrow> \<not> P x \<Longrightarrow> length (takeWhile P xs) < length xs"
  by (induction xs) auto

lemma lastEndingOf_bounds:
  "Ending \<in> set h \<Longrightarrow> 0 \<le> lastEndingOf h \<and> lastEndingOf h < int (length h)"
proof -
  assume a: "Ending \<in> set h"
  then have "Ending \<in> set (rev h)" by simp
  then have "length (takeWhile (\<lambda>a. a \<noteq> Ending) (rev h)) < length (rev h)"
    by (rule takeWhile_shorter) simp
  then show ?thesis using a by (simp add: lastEndingOf_def)
qed




text \<open>\<open>lastEndingOf\<close> is the index of the most recent ending event.\<close>

lemma lastEndingOf_greatest:
  "Ending \<in> set h \<Longrightarrow>
   h ! nat (lastEndingOf h) = Ending
   \<and> (\<forall>j. nat (lastEndingOf h) < j \<and> j < length h \<longrightarrow> h ! j \<noteq> Ending)"
proof (induction h rule: rev_induct)
  case Nil
  then show ?case by simp
next
  case (snoc x xs)
  show ?case
  proof (cases x)
    case Ending
    then show ?thesis by (auto simp add: lastEndingOf_snoc_Ending)
  next
    case Ongoing
    then have m: "Ending \<in> set xs" using snoc.prems by simp
    then have b: "nat (lastEndingOf xs) < length xs"
      using lastEndingOf_bounds [of xs] by linarith
    have ih: "xs ! nat (lastEndingOf xs) = Ending"
      and ih2: "\<And>j. nat (lastEndingOf xs) < j \<Longrightarrow> j < length xs \<Longrightarrow> xs ! j \<noteq> Ending"
      using snoc.IH [OF m] by blast+
    have 1: "(xs @ [x]) ! nat (lastEndingOf (xs @ [x])) = Ending"
      using b ih Ongoing by (simp add: lastEndingOf_snoc_Ongoing nth_append)
    have 2: "(xs @ [x]) ! j \<noteq> Ending" if "nat (lastEndingOf (xs @ [x])) < j" "j < length (xs @ [x])" for j
    proof (cases "j < length xs")
      case True
      then show ?thesis using that ih2 [of j] Ongoing by (simp add: lastEndingOf_snoc_Ongoing nth_append)
    next
      case False
      then have "j = length xs" using that by simp
      then show ?thesis using Ongoing by simp
    qed
    show ?thesis using 1 2 by blast
  qed
qed







lemma livenessInv_shutdown [simp]: "livenessInv (st\<lparr>shutdownToolIds := x\<rparr>) = livenessInv st"
  by (simp add: livenessInv_def)

lemma livenessInv_trackTokens [simp]: "livenessInv (trackTokens st p) = livenessInv st"
  by (simp add: livenessInv_def trackTokens_def Let_def)

lemma livenessInv_detectCompaction [simp]: "livenessInv (detectCompaction st p) = livenessInv st"
  by (simp add: livenessInv_def detectCompaction_def)











lemma trim_toolStartLine: "trim toolStartLine = toolStartLine"
  by (simp add: trim_def isWhiteSpace_def toolStartLine_def)

lemma trim_toolStartLine_ne: "trim toolStartLine \<noteq> []"
  unfolding trim_toolStartLine by (simp add: toolStartLine_def)

lemma parse_toolStartLine: "jsonParse sampleEnv toolStartLine = Some toolStartRecord"
  by (simp add: sample_env sample_text)








section \<open>Context consumption: the breakdown of the spec\<close>

declare middlePhases.simps [simp del]




lemma contextVars_noteOngoing [simp]: "contextVars (noteOngoing st) = contextVars st"
  by (simp add: contextVars_def noteOngoing_def)

lemma contextVars_noteEnding [simp]: "contextVars (noteEnding st) = contextVars st"
  by (simp add: contextVars_def noteEnding_def)

lemma contextVars_shutdown [simp]: "contextVars (st\<lparr>shutdownToolIds := x\<rparr>) = contextVars st"
  by (simp add: contextVars_def)











lemma contextInv_detectCompaction [simp]: "contextInv (detectCompaction st p) = contextInv st"
  by (simp add: contextInv_def detectCompaction_def)
















section \<open>Synthesized messages carry no usage and open no compaction phase\<close>

lemma synthesized_build [simp]: "synthesized (buildCopilotMessage e t c ts seed cwd0 model0)"
  by (simp add: synthesized_def buildCopilotMessage_def)

lemma synthesized_event:
  "case_option True synthesized (parseCopilotEventEntry e now entry)"
  by (simp add: parseCopilotEventEntry_def Let_def split: option.splits)

lemma synthesized_flat:
  "case_option True synthesized (parseCopilotMessageEntry e now entry)"
  by (simp add: parseCopilotMessageEntry_def Let_def split: option.splits)

lemma synthesized_parent [simp]: "synthesized (m\<lparr>parentUuid := p\<rparr>) = synthesized m"
  by (simp add: synthesized_def)

lemma synthesized_assignFrom: "list_all synthesized (assignFrom p ms) = list_all synthesized ms"
  by (induction ms arbitrary: p) simp_all

lemma synthesized_messageArrayFrom: "list_all synthesized (messageArrayFrom e clock i items)"
proof (induction items arbitrary: i)
  case Nil
  show ?case by simp
next
  case (Cons x xs)
  show ?case
    using synthesized_flat [of e "clock i" x] Cons.IH [of "Suc i"]
    by (simp split: option.splits)
qed

lemma synthesized_requestMessages: "list_all synthesized (requestMessages e now index item)"
  by (simp add: requestMessages_def Let_def split: option.splits)

lemma synthesized_requestArrayFrom: "list_all synthesized (requestArrayFrom e clock i items)"
  by (induction items arbitrary: i) (simp_all add: synthesized_requestMessages)

lemma synthesized_sort: "list_all synthesized (sort_key f ms) = list_all synthesized ms"
  by (simp add: list_all_iff)

lemma synthesized_transcript: "list_all synthesized (parseCopilotTranscript e clock data)"
  using synthesized_flat [of e "clock 0" data]
  by (simp add: parseCopilotTranscript_def parseCopilotMessageArray_def parseCopilotRequestArray_def
      assignParentUuids_def synthesized_assignFrom synthesized_messageArrayFrom
      synthesized_requestArrayFrom synthesized_sort split: option.splits)

lemma synthesized_jsonFile: "list_all synthesized (parseCopilotJsonFile e clock fs p)"
  by (simp add: parseCopilotJsonFile_def synthesized_transcript split: option.splits)

lemma notStructured_parse: "notStructured entry \<Longrightarrow> parseChatHistoryEntry e now entry = Inr None"
  by (auto simp add: notStructured_def parseChatHistoryEntry_def split: option.splits)

lemma synthesized_eventD: "parseCopilotEventEntry e now entry = Some m \<Longrightarrow> synthesized m"
  using synthesized_event [of e now entry] by simp

lemma synthesized_flatD: "parseCopilotMessageEntry e now entry = Some m \<Longrightarrow> synthesized m"
  using synthesized_flat [of e now entry] by simp

lemma synthesized_line:
  "decodesUnstructured e line \<Longrightarrow> parseJsonlLine e now line = Inr (Some m) \<Longrightarrow> synthesized m"
  by (auto simp add: decodesUnstructured_def parseJsonlLine_def parseDecodedEntry_def notStructured_parse
      split: if_splits option.splits dest: synthesized_eventD synthesized_flatD)

lemma synthesized_lines:
  "list_all (decodesUnstructured e) ls \<Longrightarrow> list_all synthesized (fst (parseLinesFrom e clock i ls))"
proof (induction ls arbitrary: i)
  case Nil
  show ?case by simp
next
  case (Cons l ls)
  then have d: "decodesUnstructured e l" and r: "list_all synthesized (fst (parseLinesFrom e clock (Suc i) ls))"
    by simp_all
  obtain ms lg where p: "parseLinesFrom e clock (Suc i) ls = (ms, lg)"
    by (cases "parseLinesFrom e clock (Suc i) ls") blast
  then have ms: "list_all synthesized ms" using r by simp
  show ?case
  proof (cases "parseJsonlLine e (clock i) l")
    case (Inl err)
    then show ?thesis using ms p by simp
  next
    case (Inr res)
    show ?thesis
    proof (cases res)
      case None
      then show ?thesis using ms p Inr by simp
    next
      case (Some m)
      then have "synthesized m" using synthesized_line [OF d] Inr by blast
      then show ?thesis using ms p Inr Some by simp
    qed
  qed
qed

lemma synthesized_file:
  "list_all (decodesUnstructured e) (fsLines fs p) \<Longrightarrow> list_all synthesized (parseJsonlFile e clock fs p)"
  by (simp add: parseJsonlFile_def Let_def synthesized_jsonFile synthesized_lines
      consolidateCopilotDeltas_def assignParentUuids_def synthesized_assignFrom)

lemma addUsage_synthesized: "synthesized m \<Longrightarrow> addUsage acc m = acc"
  by (cases acc) (simp add: synthesized_def)

lemma sumUsage_synthesized: "list_all synthesized ms \<Longrightarrow> foldl addUsage acc ms = acc"
  by (induction ms arbitrary: acc) (simp_all add: addUsage_synthesized)

lemma metrics_synthesized:
  "list_all synthesized ms \<Longrightarrow>
   inputTokens (calculateMetrics ms) = 0 \<and> outputTokens (calculateMetrics ms) = 0
   \<and> cacheReadTokens (calculateMetrics ms) = 0 \<and> cacheCreationTokens (calculateMetrics ms) = 0"
  by (simp add: calculateMetrics_counters sumUsage_def sumUsage_synthesized)

lemma phases_copilotEventStep [simp]:
  "compactionPhases (copilotEventStep st entry t) = compactionPhases st"
  by (simp add: copilotEventStep_def Let_def noteOngoing_def noteEnding_def)

lemma analyzeEntry_unstructured:
  "notStructured entry \<Longrightarrow>
   \<exists>st'. analyzeEntry e now st entry = Inr st' \<and> compactionPhases st' = compactionPhases st"
  by (simp add: analyzeEntry_def Let_def notStructured_parse) (simp add: notStructured_def)

lemma analyzeLines_unstructured:
  "list_all (\<lambda>l. decodesUnstructured e (trim l)) ls \<Longrightarrow>
   \<exists>st'. analyzeLinesFrom e clock i st ls = Inr st' \<and> compactionPhases st' = compactionPhases st"
proof (induction ls arbitrary: i st)
  case Nil
  show ?case by simp
next
  case (Cons l ls)
  then have d: "decodesUnstructured e (trim l)"
    and r: "\<And>i st. \<exists>st'. analyzeLinesFrom e clock i st ls = Inr st' \<and> compactionPhases st' = compactionPhases st"
    by simp_all
  show ?case
  proof (cases "trim l = []")
    case True
    then show ?thesis using r [of "Suc i" st] by simp
  next
    case False
    show ?thesis
    proof (cases "jsonParse e (trim l)")
      case None
      then show ?thesis using False r [of "Suc i" st] by simp
    next
      case (Some entry)
      then have "notStructured entry" using d by (simp add: decodesUnstructured_def)
      then obtain s1 where s1: "analyzeEntry e (clock i) st entry = Inr s1"
          "compactionPhases s1 = compactionPhases st"
        using analyzeEntry_unstructured by blast
      then show ?thesis using False Some r [of "Suc i" s1] by simp
    qed
  qed
qed

lemma flat_flatRecord_type:
  "map_option type (parseCopilotMessageEntry e now flatRecord) = Some User"
  by (simp add: parseCopilotMessageEntry_def flatRecord_def normalizeRole_def string_eval)

lemma event_toolStartRecord_type:
  "map_option type (parseCopilotEventEntry e now toolStartRecord) = Some Assistant"
  by (simp add: parseCopilotEventEntry_def toolStartRecord_def includesDot_def)

lemma structured_toolStartRecord: "parseChatHistoryEntry e now toolStartRecord = Inr None"
  by (simp add: parseChatHistoryEntry_def toolStartRecord_def)

lemma eventFs_unstructured:
  "list_all (decodesUnstructured sampleEnv) (fsLines eventFs p)
   \<and> list_all (\<lambda>l. decodesUnstructured sampleEnv (trim l)) (fsLines eventFs p)"
  by (simp add: eventFs_def decodesUnstructured_def trim_flatLine trim_toolStartLine parse_flatLine
      parse_toolStartLine notStructured_def flatRecord_def toolStartRecord_def)

lemma eventFs_types:
  "map type (parseJsonlFile sampleEnv sampleClock eventFs p) = [User, Assistant]"
proof -
  obtain m1 where m1: "parseCopilotMessageEntry sampleEnv (sampleClock 0) flatRecord = Some m1" "type m1 = User"
    using flat_flatRecord_type [of sampleEnv "sampleClock 0"] by auto
  obtain m2 where m2: "parseCopilotEventEntry sampleEnv (sampleClock (Suc 0)) toolStartRecord = Some m2"
      "type m2 = Assistant"
    using event_toolStartRecord_type [of sampleEnv "sampleClock (Suc 0)"] by auto
  have l: "parseLinesFrom sampleEnv sampleClock 0 (fsLines eventFs p) = ([m1, m2], [])"
    by (simp add: eventFs_def parseJsonlLine_def parseDecodedEntry_def trim_flatLine_ne trim_toolStartLine_ne
        parse_flatLine parse_toolStartLine structured_flatRecord event_flatRecord
        structured_toolStartRecord m1 m2)
  have x: "fsExists eventFs p" by (simp add: eventFs_def)
  show ?thesis
    using x by (simp add: parseJsonlFile_def l consolidateCopilotDeltas_def isSessionStarted_def m1 m2)
qed

text \<open>
  Claim C9. Every message built by \<^verbatim>\<open>buildCopilotMessage\<close> has \<^verbatim>\<open>usage\<close> undefined,
  \<^verbatim>\<open>isSidechain\<close> false, \<^verbatim>\<open>isMeta\<close> false and \<^verbatim>\<open>isCompactSummary\<close> false, and so has every
  message of a whole-document transcript. For a file none of whose lines decodes to a
  record that the structured interpretation accepts (a session parsed solely from the
  flat, dotted and transcript formats), every message \<^verbatim>\<open>parseJsonlFile\<close> returns is such a
  message and \<^verbatim>\<open>calculateMetrics\<close> gives 0 for the four token counters; on such a file
  \<^verbatim>\<open>analyzeSessionFileMetadata\<close> returns and reports no compaction.
\<close>

theorem synthesized_never_counts:
  "synthesized (buildCopilotMessage e t c ts seed cwd0 model0)
   \<and> (list_all (decodesUnstructured e) (fsLines fs filePath) \<longrightarrow>
        list_all synthesized (parseJsonlFile e clock fs filePath)
        \<and> inputTokens (calculateMetrics (parseJsonlFile e clock fs filePath)) = 0
        \<and> outputTokens (calculateMetrics (parseJsonlFile e clock fs filePath)) = 0
        \<and> cacheReadTokens (calculateMetrics (parseJsonlFile e clock fs filePath)) = 0
        \<and> cacheCreationTokens (calculateMetrics (parseJsonlFile e clock fs filePath)) = 0)
   \<and> list_all synthesized (parseCopilotTranscript e clock data)
   \<and> (list_all (\<lambda>l. decodesUnstructured e (trim l)) (fsLines fs filePath) \<longrightarrow>
        (\<exists>r. analyzeSessionFileMetadata e clock fs filePath = Inr r \<and> compactionCount r = None))"
proof -
  have 2: "list_all synthesized (parseJsonlFile e clock fs filePath)
        \<and> inputTokens (calculateMetrics (parseJsonlFile e clock fs filePath)) = 0
        \<and> outputTokens (calculateMetrics (parseJsonlFile e clock fs filePath)) = 0
        \<and> cacheReadTokens (calculateMetrics (parseJsonlFile e clock fs filePath)) = 0
        \<and> cacheCreationTokens (calculateMetrics (parseJsonlFile e clock fs filePath)) = 0"
    if "list_all (decodesUnstructured e) (fsLines fs filePath)"
    using synthesized_file [OF that, of clock] metrics_synthesized by blast
  have 4: "\<exists>r. analyzeSessionFileMetadata e clock fs filePath = Inr r \<and> compactionCount r = None"
    if h: "list_all (\<lambda>l. decodesUnstructured e (trim l)) (fsLines fs filePath)"
  proof (cases "fsExists fs filePath")
    case False
    then show ?thesis by (simp add: analyzeSessionFileMetadata_def)
  next
    case True
    obtain st where "analyzeLinesFrom e clock 0 initialState (fsLines fs filePath) = Inr st"
        "compactionPhases st = compactionPhases initialState"
      using analyzeLines_unstructured [OF h] by blast
    then show ?thesis using True
      by (simp add: analyzeSessionFileMetadata_def summarize_def initialState_def)
  qed
  show ?thesis
    using 2 4 synthesized_transcript [of e clock data] by simp
qed

theorem synthesized_never_counts_witness:
  "list_all (decodesUnstructured sampleEnv) (fsLines eventFs ''session.jsonl'')
   \<and> list_all (\<lambda>l. decodesUnstructured sampleEnv (trim l)) (fsLines eventFs ''session.jsonl'')
   \<and> map type (parseJsonlFile sampleEnv sampleClock eventFs ''session.jsonl'') = [User, Assistant]
   \<and> map usage (parseJsonlFile sampleEnv sampleClock eventFs ''session.jsonl'') = [JUndefined, JUndefined]
   \<and> inputTokens (calculateMetrics (parseJsonlFile sampleEnv sampleClock eventFs ''session.jsonl'')) = 0
   \<and> map_sum id compactionCount
        (analyzeSessionFileMetadata sampleEnv sampleClock eventFs ''session.jsonl'') = Inr None"
proof -
  note u = eventFs_unstructured [of "''session.jsonl''"]
  from synthesized_never_counts [of sampleEnv User JNull 0 "[]" None None eventFs "''session.jsonl''"
      sampleClock JNull] u
  have s: "list_all synthesized (parseJsonlFile sampleEnv sampleClock eventFs ''session.jsonl'')"
    and i: "inputTokens (calculateMetrics (parseJsonlFile sampleEnv sampleClock eventFs ''session.jsonl'')) = 0"
    and a: "\<exists>r. analyzeSessionFileMetadata sampleEnv sampleClock eventFs ''session.jsonl'' = Inr r
              \<and> compactionCount r = None"
    by blast+
  obtain m1 m2 where ms: "parseJsonlFile sampleEnv sampleClock eventFs ''session.jsonl'' = [m1, m2]"
    using eventFs_types [of "''session.jsonl''"] by auto
  have us: "map usage (parseJsonlFile sampleEnv sampleClock eventFs ''session.jsonl'') = [JUndefined, JUndefined]"
    using s by (simp add: ms synthesized_def)
  from a have c: "map_sum id compactionCount
        (analyzeSessionFileMetadata sampleEnv sampleClock eventFs ''session.jsonl'') = Inr None"
    by auto
  show ?thesis
    using u eventFs_types [of "''session.jsonl''"] us i c by simp
qed

end
